theory Spec2Isabelle
  imports Main
begin

section \<open>The Arr gateway (src/arr.ts) and the database module\<close>

text \<open>
  A shallow embedding of \<^verbatim>\<open>src/arr.ts\<close> (the Sonarr/Radarr lookups of cross-seed) and
  of the module that opens the databases. A JavaScript string is a \<^typ>\<open>string\<close>, one
  list element for each code unit that \<^verbatim>\<open>substring\<close> and \<^verbatim>\<open>length\<close> count. An
  \<^verbatim>\<open>async\<close> function that rejects is a function that throws: both are the
  constructor \<open>Throws\<close> below.
\<close>

subsection \<open>Errors, results and outcomes\<close>

text \<open>A JavaScript error object: its \<^verbatim>\<open>name\<close>, \<^verbatim>\<open>message\<close> and \<^verbatim>\<open>cause\<close>.\<close>

datatype js_error =
  JsError (errName: string) (errMessage: string) (errCause: "js_error option")

text \<open>\<^verbatim>\<open>new Error(message)\<close>.\<close>

definition Error :: "string \<Rightarrow> js_error" where
  "Error m = JsError ''Error'' m None"

text \<open>
  Modelled from the spec: \<^verbatim>\<open>Result.js\<close> (\<^verbatim>\<open>Result\<close>, \<^verbatim>\<open>resultOf\<close>,
  \<^verbatim>\<open>resultOfErr\<close>) is not among the sources; the spec describes it as the tagged
  variants \<^verbatim>\<open>{ok: T} | {err: ErrorKind, detail}\<close>. \<open>Ok\<close> is \<^verbatim>\<open>resultOf\<close>, \<open>Err\<close> is
  \<^verbatim>\<open>resultOfErr\<close>.
\<close>

datatype ('a, 'e) Result = Ok 'a | Err 'e

text \<open>
  What leaves a function by \<^verbatim>\<open>throw\<close>: a \<^verbatim>\<open>CrossSeedError\<close> (message and
  \<^verbatim>\<open>cause\<close>) or an error of the platform that nothing caught.
\<close>

datatype thrown = CrossSeedError string "js_error option" | Uncaught js_error

datatype 'a outcome = Throws thrown | Returns 'a

fun isCrossSeedError :: "'a outcome \<Rightarrow> bool" where
  "isCrossSeedError (Throws (CrossSeedError _ _)) = True"
| "isCrossSeedError _ = False"

subsection \<open>Truthiness\<close>

text \<open>
  The values tested for truthiness in \<^verbatim>\<open>arr.ts\<close> are declared \<^verbatim>\<open>string\<close> and may be
  absent: \<open>None\<close> is \<^verbatim>\<open>undefined\<close>. JavaScript takes \<^verbatim>\<open>undefined\<close> and the empty
  string as falsy and every other string as truthy.
\<close>

fun truthy :: "string option \<Rightarrow> bool" where
  "truthy None = False"
| "truthy (Some s) = (s \<noteq> [])"

text \<open>
  Modelled from the spec: \<^verbatim>\<open>isTruthy\<close> of \<^verbatim>\<open>utils.js\<close> is not among the sources; the
  spec speaks of a "truthy id", which is JavaScript's truthiness of the value.
\<close>

definition isTruthy :: "string option \<Rightarrow> bool" where
  "isTruthy v = truthy v"

text \<open>
  A value of any JSON type, for the members of a received object that no interface
  of \<^verbatim>\<open>arr.ts\<close> declares (a title, a year), and its truthiness: \<^verbatim>\<open>null\<close>,
  \<^verbatim>\<open>false\<close>, 0 and the empty string are falsy, every other value is truthy. A number
  is given by an integer; of a number the code tests only whether it is 0.
\<close>

datatype json =
    JNull
  | JBoolean bool
  | JNumber int
  | JString string
  | JArray "json list"
  | JObject "(string \<times> json) list"

fun jsonTruthy :: "json \<Rightarrow> bool" where
  "jsonTruthy JNull = False"
| "jsonTruthy (JBoolean b) = b"
| "jsonTruthy (JNumber i) = (i \<noteq> 0)"
| "jsonTruthy (JString s) = (s \<noteq> [])"
| "jsonTruthy (JArray xs) = True"
| "jsonTruthy (JObject ms) = True"

subsection \<open>The interfaces of arr.ts\<close>

text \<open>
  The object at \<^verbatim>\<open>movie\<close> or \<^verbatim>\<open>series\<close> of a response. The interface
  \<^verbatim>\<open>ExternalIds\<close> declares three members; the object an Arr sends may have others
  beside them, which the cast keeps: \<open>otherMembers\<close>, in the order of the object.
\<close>

record ExternalIds =
  imdbId :: "string option"
  tmdbId :: "string option"
  tvdbId :: "string option"
  otherMembers :: "(string \<times> json) list"

text \<open>
  \<^verbatim>\<open>ParsedMedia = ParsedMovie | ParsedSeries\<close>. The value is a cast of the JSON an Arr
  sent, and the code itself reckons with a response that has neither \<^verbatim>\<open>movie\<close> nor
  \<^verbatim>\<open>series\<close> (\<^verbatim>\<open>response.movie ?? response.series ?? {}\<close>), so each member is
  optional here; \<open>isParsedMovie\<close> and \<open>isParsedSeries\<close> are the two declared shapes.
\<close>

record ParsedMedia =
  movie :: "ExternalIds option"
  series :: "ExternalIds option"
  episodes :: "(nat \<times> nat) list option"

definition isParsedMovie :: "ParsedMedia \<Rightarrow> bool" where
  "isParsedMovie p = (movie p \<noteq> None \<and> series p = None \<and> episodes p = None)"

definition isParsedSeries :: "ParsedMedia \<Rightarrow> bool" where
  "isParsedSeries p = (movie p = None \<and> series p \<noteq> None \<and> episodes p \<noteq> None)"

text \<open>The empty object \<^verbatim>\<open>{}\<close> read as \<^verbatim>\<open>ExternalIds\<close>.\<close>

definition emptyIds :: ExternalIds where
  "emptyIds = \<lparr>imdbId = None, tmdbId = None, tvdbId = None, otherMembers = []\<rparr>"

text \<open>
  \<^verbatim>\<open>Object.values(ids).some(isTruthy)\<close>: the test runs over every member of the
  object, the declared ones and the others.
\<close>

definition someTruthyId :: "ExternalIds \<Rightarrow> bool" where
  "someTruthyId ids =
     (isTruthy (imdbId ids) \<or> isTruthy (tmdbId ids) \<or> isTruthy (tvdbId ids)
      \<or> list_ex jsonTruthy (map snd (otherMembers ids)))"

text \<open>Whether one of the three external ids of the object is truthy.\<close>

definition someTruthyExternalId :: "ExternalIds \<Rightarrow> bool" where
  "someTruthyExternalId ids =
     (truthy (imdbId ids) \<or> truthy (tmdbId ids) \<or> truthy (tvdbId ids))"

subsection \<open>URLs, requests and responses of the platform\<close>

record URL =
  origin :: string
  pathname :: string
  searchParams :: "(string \<times> string) list"

text \<open>
  \<^verbatim>\<open>URLSearchParams.set\<close>: the first pair of that name takes the value and the later
  ones are removed; without such a pair, one is appended.
\<close>

fun searchParams_set :: "string \<Rightarrow> string \<Rightarrow> (string \<times> string) list \<Rightarrow> (string \<times> string) list" where
  "searchParams_set n v [] = [(n, v)]"
| "searchParams_set n v ((k, w) # ps) =
     (if k = n then (n, v) # filter (\<lambda>p. fst p \<noteq> n) ps
      else (k, w) # searchParams_set n v ps)"

definition searchParams_has :: "string \<Rightarrow> (string \<times> string) list \<Rightarrow> bool" where
  "searchParams_has n ps = (n \<in> set (map fst ps))"

text \<open>
  \<^verbatim>\<open>AbortSignal.timeout(ms)\<close>: a signal that aborts after \<open>delay\<close> milliseconds. The
  DOM standard sets its abort reason to a \<^verbatim>\<open>DOMException\<close> named \<^verbatim>\<open>TimeoutError\<close>,
  and \<^verbatim>\<open>fetch\<close> rejects with the reason of the signal that aborted it.
\<close>

record AbortSignal =
  delay :: nat
  reason :: js_error

definition AbortSignal_timeout :: "nat \<Rightarrow> AbortSignal" where
  "AbortSignal_timeout ms =
     \<lparr>delay = ms,
      reason = JsError ''TimeoutError'' ''The operation was aborted due to timeout'' None\<rparr>"

text \<open>\<^verbatim>\<open>ms("30 seconds")\<close>.\<close>

definition ms_30_seconds :: nat where
  "ms_30_seconds = 30000"

text \<open>
  What \<^verbatim>\<open>fetch(url, {signal, headers})\<close> sends. No \<^verbatim>\<open>method\<close> is given in
  \<^verbatim>\<open>arr.ts\<close>, and \<^verbatim>\<open>fetch\<close> then sends a GET. The value of the header is what
  \<^verbatim>\<open>getApikey\<close> returned (\<open>None\<close> is \<^verbatim>\<open>null\<close>).
\<close>

record Request =
  url :: URL
  requestMethod :: string
  headers :: "(string \<times> string option) list"
  signal :: AbortSignal

text \<open>
  A response: its status line, and what reading its body gives, the text or the error
  with which \<^verbatim>\<open>text()\<close> and \<^verbatim>\<open>json()\<close> reject when the body cannot be read to its
  end. \<^verbatim>\<open>response.ok\<close> is a status from 200 to 299.
\<close>

record Response =
  status :: nat
  statusText :: string
  body :: "js_error + string"

definition ok :: "Response \<Rightarrow> bool" where
  "ok r = (200 \<le> status r \<and> status r \<le> 299)"

definition text_of :: "Response \<Rightarrow> js_error + string" where
  "text_of r = body r"

text \<open>
  \<^verbatim>\<open>response.clone().json()\<close> cast to the response type: \<open>decode\<close> reads the text as
  JSON at that type and is \<open>None\<close> where the text is not JSON. It rejects as well when
  the body cannot be read.
\<close>

definition json_of :: "(string \<Rightarrow> 'r option) \<Rightarrow> Response \<Rightarrow> 'r option" where
  "json_of decode r = (case body r of Inl e \<Rightarrow> None | Inr t \<Rightarrow> decode t)"

text \<open>
  What the network does with a request: it fails, it gives no answer before the
  signal's deadline, or it answers. The first argument of a \<open>network\<close> counts the calls
  made before, so that the same request may be answered differently later.
\<close>

datatype net_event = NetworkFailure js_error | NoAnswerInTime | Answers Response

type_synonym network = "nat \<Rightarrow> Request \<Rightarrow> net_event"

definition fetch :: "network \<Rightarrow> nat \<Rightarrow> Request \<Rightarrow> js_error + Response" where
  "fetch net n req =
     (case net n req of
        NetworkFailure e \<Rightarrow> Inl e
      | NoAnswerInTime \<Rightarrow> Inl (reason (signal req))
      | Answers r \<Rightarrow> Inr r)"

subsection \<open>Decimal numerals\<close>

definition digit :: "nat \<Rightarrow> char" where
  "digit d = ''0123456789'' ! (d mod 10)"

function show_nat :: "nat \<Rightarrow> string" where
  "show_nat n = (if n < 10 then [digit n] else show_nat (n div 10) @ [digit n])"
  by pat_completeness auto
termination
  by (relation "measure (\<lambda>n. n)") auto

subsection \<open>What arr.ts imports\<close>

text \<open>
  The functions and constants that \<^verbatim>\<open>arr.ts\<close> imports from modules that are not
  among the sources (\<^verbatim>\<open>utils.js\<close>, \<^verbatim>\<open>constants.js\<close>), and the platform functions
  whose results it only passes on. They are parameters of the model:
  \<^item> \<open>getApikey\<close>, \<open>sanitizeUrl\<close>, \<open>stripExtension\<close>, \<open>cleanseSeparators\<close> of
    \<^verbatim>\<open>utils.js\<close>;
  \<^item> \<open>replace_RELEASE_GROUP\<close> is \<^verbatim>\<open>s.replace(RELEASE_GROUP_REGEX, "")\<close>, and likewise
    for \<^verbatim>\<open>RESOLUTION_REGEX\<close> and \<^verbatim>\<open>REPACK_PROPER_REGEX\<close> of \<^verbatim>\<open>constants.js\<close>;
  \<^item> \<open>newURL\<close> is \<^verbatim>\<open>new URL(s)\<close>, \<open>None\<close> where it throws its \<^verbatim>\<open>TypeError\<close>;
    \<open>href\<close> is \<^verbatim>\<open>url.href\<close>; \<open>posixJoin\<close> is \<^verbatim>\<open>join\<close> of \<^verbatim>\<open>node:path/posix\<close>;
  \<^item> \<open>decodeParsedMedia\<close> and \<open>decodePing\<close> read a text as JSON at the two response
    types (\<open>None\<close>: the text is not JSON); the text \<^verbatim>\<open>null\<close> is JSON and decodes to
    \<^verbatim>\<open>null\<close>, the inner \<open>None\<close>, which the code allows for at a ping with
    \<^verbatim>\<open>arrPingResponse?.current\<close>.
\<close>

record ArrPing =
  current :: "string option"

record deps =
  getApikey :: "string \<Rightarrow> string option"
  sanitizeUrl :: "string \<Rightarrow> string"
  stripExtension :: "string \<Rightarrow> string"
  cleanseSeparators :: "string \<Rightarrow> string"
  replace_RELEASE_GROUP :: "string \<Rightarrow> string"
  replace_RESOLUTION :: "string \<Rightarrow> string"
  replace_REPACK_PROPER :: "string \<Rightarrow> string"
  newURL :: "string \<Rightarrow> URL option"
  href :: "URL \<Rightarrow> string"
  posixJoin :: "string \<Rightarrow> string \<Rightarrow> string"
  decodeParsedMedia :: "string \<Rightarrow> ParsedMedia option option"
  decodePing :: "string \<Rightarrow> ArrPing option option"

text \<open>
  \<^verbatim>\<open>getRuntimeConfig()\<close>: \<^verbatim>\<open>getRelevantArrInstances\<close> returns \<^verbatim>\<open>sonarr\<close> and
  \<^verbatim>\<open>radarr\<close> as \<^verbatim>\<open>string[]\<close>, so both are lists.
\<close>

record RuntimeConfig =
  sonarr :: "string list"
  radarr :: "string list"

text \<open>Of a searchee, \<^verbatim>\<open>arr.ts\<close> reads the name only.\<close>

record Searchee =
  name :: string

text \<open>
  The enum \<^verbatim>\<open>MediaType\<close> is declared in \<^verbatim>\<open>utils.js\<close>. \<^verbatim>\<open>arr.ts\<close> names five
  members, which are the five of the spec, and its \<^verbatim>\<open>switch\<close> has a \<^verbatim>\<open>default\<close>
  branch for any other member: \<open>UnlistedMediaType\<close>.
\<close>

datatype MediaType = SEASON | EPISODE | MOVIE | ANIME | OTHER | UnlistedMediaType string

text \<open>Modelled from the use in \<^verbatim>\<open>getRelevantArrIds\<close>: \<^verbatim>\<open>Caps\<close> and
  \<^verbatim>\<open>IdSearchParams\<close> are declared in \<^verbatim>\<open>torznab.js\<close>. The flags of a capability set
  are named \<^verbatim>\<open>tvdbId\<close>, \<^verbatim>\<open>tmdbId\<close>, \<^verbatim>\<open>imdbId\<close> there.\<close>

record IdSearchCaps =
  cap_tvdbId :: bool
  cap_tmdbId :: bool
  cap_imdbId :: bool

record Caps =
  movieIdSearch :: IdSearchCaps
  tvIdSearch :: IdSearchCaps

record IdSearchParams =
  tvdbid :: "string option"
  tmdbid :: "string option"
  imdbid :: "string option"

subsection \<open>makeArrApiCall\<close>

definition getBodySampleMessage :: "string \<Rightarrow> string" where
  "getBodySampleMessage text =
     (let first1000Chars = take 1000 text
      in if first1000Chars \<noteq> [] then ''first 1000 characters: '' @ first1000Chars else [])"

text \<open>
  The request that \<^verbatim>\<open>makeArrApiCall\<close> builds before it calls \<^verbatim>\<open>fetch\<close>; \<open>None\<close>
  where \<^verbatim>\<open>new URL(sanitizeUrl(uArrL))\<close> throws.
\<close>

definition arrRequest :: "deps \<Rightarrow> string \<Rightarrow> string \<Rightarrow> (string \<times> string) list \<Rightarrow> Request option" where
  "arrRequest d uArrL resourcePath params =
     (let apikey = getApikey d uArrL
      in case newURL d (sanitizeUrl d uArrL) of
           None \<Rightarrow> None
         | Some u \<Rightarrow>
             Some \<lparr>url = u\<lparr>pathname := posixJoin d (pathname u) resourcePath,
                             searchParams := fold (\<lambda>(n, v). searchParams_set n v) params (searchParams u)\<rparr>,
                   requestMethod = ''GET'',
                   headers = [(''X-Api-Key'', apikey)],
                   signal = AbortSignal_timeout ms_30_seconds\<rparr>)"

definition invalidURL :: thrown where
  "invalidURL = Uncaught (JsError ''TypeError'' ''Invalid URL'' None)"

text \<open>
  \<^verbatim>\<open>fetch\<close> with the request it sends: what the functions below report as sent is
  what they passed to \<^verbatim>\<open>fetch\<close>.
\<close>

definition fetchSent :: "network \<Rightarrow> nat \<Rightarrow> Request \<Rightarrow> (js_error + Response) \<times> Request list" where
  "fetchSent net n req = (fetch net n req, [req])"

text \<open>
  \<^verbatim>\<open>makeArrApiCall\<close>: its result, and the requests it had \<^verbatim>\<open>fetch\<close> send, each with
  the \<^verbatim>\<open>uArrL\<close> it was made for.
\<close>

definition makeArrApiCallSent ::
  "deps \<Rightarrow> network \<Rightarrow> nat \<Rightarrow> (string \<Rightarrow> 'r option) \<Rightarrow> string \<Rightarrow> string \<Rightarrow> (string \<times> string) list
     \<Rightarrow> ('r, js_error) Result outcome \<times> (string \<times> Request) list" where
  "makeArrApiCallSent d net n decode uArrL resourcePath params =
     (case arrRequest d uArrL resourcePath params of
        None \<Rightarrow> (Throws invalidURL, [])
      | Some req \<Rightarrow>
          (let (answer, sent) = fetchSent net n req
           in ((case answer of
                  Inl networkError \<Rightarrow>
                    if errName networkError = ''AbortError''
                    then Returns (Err (Error ''connection timeout''))
                    else Returns (Err networkError)
                | Inr response \<Rightarrow>
                    if \<not> ok response then
                      (case text_of response of
                         Inl e \<Rightarrow> Throws (Uncaught e)
                       | Inr responseText \<Rightarrow>
                           Returns (Err (Error (show_nat (status response) @ '' ''
                                                  @ statusText response
                                                  @ '' '' @ getBodySampleMessage responseText))))
                    else
                      (case json_of decode response of
                         Some responseBody \<Rightarrow> Returns (Ok responseBody)
                       | None \<Rightarrow>
                           (case text_of response of
                              Inl e \<Rightarrow> Throws (Uncaught e)
                            | Inr responseText \<Rightarrow>
                                Returns (Err (Error (''Arr response was non-JSON. ''
                                                       @ getBodySampleMessage responseText)))))),
               map (\<lambda>r. (uArrL, r)) sent)))"

text \<open>The result of \<^verbatim>\<open>makeArrApiCall\<close> alone.\<close>

definition makeArrApiCall ::
  "deps \<Rightarrow> network \<Rightarrow> nat \<Rightarrow> (string \<Rightarrow> 'r option) \<Rightarrow> string \<Rightarrow> string \<Rightarrow> (string \<times> string) list
     \<Rightarrow> ('r, js_error) Result outcome" where
  "makeArrApiCall d net n decode uArrL resourcePath params =
     fst (makeArrApiCallSent d net n decode uArrL resourcePath params)"

text \<open>
  \<^verbatim>\<open>getMediaFromArr\<close>: the result and the requests sent. The body of a response is
  cast to \<^verbatim>\<open>ParsedMedia\<close>; the body \<^verbatim>\<open>null\<close> is the result \<open>Ok None\<close>.
\<close>

definition getMediaFromArr ::
  "deps \<Rightarrow> network \<Rightarrow> nat \<Rightarrow> string \<Rightarrow> string
     \<Rightarrow> (ParsedMedia option, js_error) Result outcome \<times> (string \<times> Request) list" where
  "getMediaFromArr d net n uArrL title =
     makeArrApiCallSent d net n (decodeParsedMedia d) uArrL ''/api/v3/parse'' [(''title'', title)]"

subsection \<open>validateUArrLs\<close>

text \<open>\<^verbatim>\<open>s.includes(sub)\<close>.\<close>

fun string_includes :: "string \<Rightarrow> string \<Rightarrow> bool" where
  "string_includes [] sub = (sub = [])"
| "string_includes (c # cs) sub = (take (length sub) (c # cs) = sub \<or> string_includes cs sub)"

text \<open>\<^verbatim>\<open>arrPingResponse?.current\<close>.\<close>

fun pingCurrent :: "ArrPing option \<Rightarrow> string option" where
  "pingCurrent None = None"
| "pingCurrent (Some p) = current p"

definition checkArrIsActive :: "deps \<Rightarrow> network \<Rightarrow> nat \<Rightarrow> string \<Rightarrow> string \<Rightarrow> unit outcome" where
  "checkArrIsActive d net n uArrL arrInstance =
     (case makeArrApiCall d net n (decodePing d) uArrL ''/api'' [] of
        Throws e \<Rightarrow> Throws e
      | Returns (Ok arrPingResponse) \<Rightarrow>
          if \<not> truthy (pingCurrent arrPingResponse)
          then Throws (CrossSeedError
                 (''Failed to establish a connection to '' @ arrInstance @ '' URL: '' @ uArrL) None)
          else Returns ()
      | Returns (Err error) \<Rightarrow>
          Throws (CrossSeedError (''Could not contact '' @ arrInstance @ '' at '' @ uArrL)
            (Some (case errCause error of
                     Some cause \<Rightarrow> if string_includes (errMessage error) ''fetch failed'' then cause else error
                   | None \<Rightarrow> error))))"

text \<open>
  One \<^verbatim>\<open>for\<close> loop of \<^verbatim>\<open>validateUArrLs\<close> over the parsed URLs; \<open>n\<close> counts the
  instances checked before.
\<close>

fun checkUrls :: "deps \<Rightarrow> network \<Rightarrow> string \<Rightarrow> nat \<Rightarrow> URL list \<Rightarrow> unit outcome" where
  "checkUrls d net arrInstance n [] = Returns ()"
| "checkUrls d net arrInstance n (u # us) =
     (if \<not> searchParams_has ''apikey'' (searchParams u)
      then Throws (CrossSeedError
             (arrInstance @ '' url '' @ href d u @ '' does not specify an apikey'') None)
      else (case checkArrIsActive d net n (href d u) arrInstance of
              Throws e \<Rightarrow> Throws e
            | Returns _ \<Rightarrow> checkUrls d net arrInstance (Suc n) us))"

text \<open>
  \<^verbatim>\<open>sonarr.map((str) => new URL(str))\<close> parses every string before the loop starts, and
  throws where one is not a URL. An array is truthy, so \<^verbatim>\<open>if (sonarr)\<close> and
  \<^verbatim>\<open>if (radarr)\<close> always take their branch.
\<close>

definition validateUArrLs :: "deps \<Rightarrow> network \<Rightarrow> RuntimeConfig \<Rightarrow> unit outcome" where
  "validateUArrLs d net cfg =
     (case those (map (newURL d) (sonarr cfg)) of
        None \<Rightarrow> Throws invalidURL
      | Some urls \<Rightarrow>
          (case checkUrls d net ''Sonarr'' 0 urls of
             Throws e \<Rightarrow> Throws e
           | Returns _ \<Rightarrow>
               (case those (map (newURL d) (radarr cfg)) of
                  None \<Rightarrow> Throws invalidURL
                | Some urls' \<Rightarrow> checkUrls d net ''Radarr'' (length urls) urls')))"

subsection \<open>scanAllArrsForMedia\<close>

definition getRelevantArrInstances :: "RuntimeConfig \<Rightarrow> MediaType \<Rightarrow> string list" where
  "getRelevantArrInstances cfg mediaType =
     (case mediaType of
        SEASON \<Rightarrow> sonarr cfg
      | EPISODE \<Rightarrow> sonarr cfg
      | MOVIE \<Rightarrow> radarr cfg
      | ANIME \<Rightarrow> sonarr cfg @ radarr cfg
      | OTHER \<Rightarrow> sonarr cfg @ radarr cfg
      | UnlistedMediaType _ \<Rightarrow> [])"

text \<open>The \<^verbatim>\<open>title\<close> of \<^verbatim>\<open>scanAllArrsForMedia\<close>.\<close>

definition scanTitle :: "deps \<Rightarrow> Searchee \<Rightarrow> MediaType \<Rightarrow> string" where
  "scanTitle d searchee mediaType =
     (if mediaType = OTHER
      then cleanseSeparators d
             (replace_REPACK_PROPER d
               (replace_RESOLUTION d
                 (replace_RELEASE_GROUP d (stripExtension d (name searchee)))))
      else name searchee)"

text \<open>The \<^verbatim>\<open>name\<close> sent to one instance.\<close>

definition scanName :: "RuntimeConfig \<Rightarrow> MediaType \<Rightarrow> string \<Rightarrow> string \<Rightarrow> string" where
  "scanName cfg mediaType title uArrL =
     (if mediaType = OTHER \<and> uArrL \<in> set (sonarr cfg) then title @ '' S00E00'' else title)"

text \<open>\<^verbatim>\<open>response.movie ?? response.series ?? {}\<close>.\<close>

definition responseIds :: "ParsedMedia \<Rightarrow> ExternalIds" where
  "responseIds response =
     (case movie response of
        Some m \<Rightarrow> m
      | None \<Rightarrow> (case series response of Some s \<Rightarrow> s | None \<Rightarrow> emptyIds))"

text \<open>
  Reading \<^verbatim>\<open>response.movie\<close> of the body \<^verbatim>\<open>null\<close> throws this \<^verbatim>\<open>TypeError\<close>.
\<close>

definition nullResponse :: thrown where
  "nullResponse =
     Uncaught (JsError ''TypeError'' ''Cannot read properties of null (reading movie)'' None)"

text \<open>
  The \<^verbatim>\<open>for\<close> loop of \<^verbatim>\<open>scanAllArrsForMedia\<close> over the instances left; \<open>n\<close> counts
  the instances queried before. With the result come the requests that the calls of
  \<^verbatim>\<open>getMediaFromArr\<close> sent, in their order. The variable \<^verbatim>\<open>error\<close> of the source
  and \<^verbatim>\<open>logArrQueryResult\<close> only write to the log of the program, which the model
  leaves out.
\<close>

fun scanLoop ::
  "deps \<Rightarrow> network \<Rightarrow> RuntimeConfig \<Rightarrow> MediaType \<Rightarrow> string \<Rightarrow> nat \<Rightarrow> string list
     \<Rightarrow> (ParsedMedia, bool) Result outcome \<times> (string \<times> Request) list" where
  "scanLoop d net cfg mediaType title n [] = (Returns (Err False), [])"
| "scanLoop d net cfg mediaType title n (uArrL # rest) =
     (let name = scanName cfg mediaType title uArrL;
          (result, sent) = getMediaFromArr d net n uArrL name
      in case result of
           Throws e \<Rightarrow> (Throws e, sent)
         | Returns (Err e) \<Rightarrow>
             (let (r, later) = scanLoop d net cfg mediaType title (Suc n) rest
              in (r, sent @ later))
         | Returns (Ok None) \<Rightarrow> (Throws nullResponse, sent)
         | Returns (Ok (Some response)) \<Rightarrow>
             if someTruthyId (responseIds response)
             then (Returns (Ok response), sent)
             else (let (r, later) = scanLoop d net cfg mediaType title (Suc n) rest
                   in (r, sent @ later)))"

definition scanAllArrsForMedia ::
  "deps \<Rightarrow> network \<Rightarrow> RuntimeConfig \<Rightarrow> Searchee \<Rightarrow> MediaType
     \<Rightarrow> (ParsedMedia, bool) Result outcome \<times> (string \<times> Request) list" where
  "scanAllArrsForMedia d net cfg searchee mediaType =
     (let uArrLs = getRelevantArrInstances cfg mediaType
      in if length uArrLs = 0 then (Returns (Err False), [])
         else scanLoop d net cfg mediaType (scanTitle d searchee mediaType) 0 uArrLs)"

subsection \<open>getRelevantArrIds\<close>

text \<open>
  \<^verbatim>\<open>parsedMedia.movie ?? parsedMedia.series\<close> is \<^verbatim>\<open>undefined\<close> where both are
  absent, and reading a member of it throws a \<^verbatim>\<open>TypeError\<close>; the conditional
  expressions read one only under a set flag.
\<close>

definition getRelevantArrIds :: "Caps \<Rightarrow> ParsedMedia \<Rightarrow> IdSearchParams outcome" where
  "getRelevantArrIds caps parsedMedia =
     (let idSearchCaps = (if movie parsedMedia \<noteq> None then movieIdSearch caps else tvIdSearch caps);
          ids = (case movie parsedMedia of Some m \<Rightarrow> Some m | None \<Rightarrow> series parsedMedia)
      in case ids of
           Some i \<Rightarrow>
             Returns \<lparr>tvdbid = (if cap_tvdbId idSearchCaps then tvdbId i else None),
                      tmdbid = (if cap_tmdbId idSearchCaps then tmdbId i else None),
                      imdbid = (if cap_imdbId idSearchCaps then imdbId i else None)\<rparr>
         | None \<Rightarrow>
             if cap_tvdbId idSearchCaps \<or> cap_tmdbId idSearchCaps \<or> cap_imdbId idSearchCaps
             then Throws (Uncaught (JsError ''TypeError''
                            ''Cannot read properties of undefined'' None))
             else Returns \<lparr>tvdbid = None, tmdbid = None, imdbid = None\<rparr>)"

subsection \<open>Notions used to state what scanAllArrsForMedia does\<close>

text \<open>
  The answer of the \<open>j\<close>-th relevant instance (counted from 0) to the call that
  \<^verbatim>\<open>scanAllArrsForMedia\<close> makes to it, and the requests that the calls to the first
  \<open>k\<close> relevant instances send: one to each instance whose URL is valid.
\<close>

definition scanAnswer ::
  "deps \<Rightarrow> network \<Rightarrow> RuntimeConfig \<Rightarrow> Searchee \<Rightarrow> MediaType \<Rightarrow> nat
     \<Rightarrow> (ParsedMedia option, js_error) Result outcome" where
  "scanAnswer d net cfg searchee mediaType j =
     (let uArrL = getRelevantArrInstances cfg mediaType ! j
      in fst (getMediaFromArr d net j uArrL
                (scanName cfg mediaType (scanTitle d searchee mediaType) uArrL)))"

definition parseRequest :: "deps \<Rightarrow> string \<Rightarrow> string \<Rightarrow> (string \<times> Request) list" where
  "parseRequest d uArrL title =
     (case arrRequest d uArrL ''/api/v3/parse'' [(''title'', title)] of
        None \<Rightarrow> []
      | Some req \<Rightarrow> [(uArrL, req)])"

definition scanRequests ::
  "deps \<Rightarrow> RuntimeConfig \<Rightarrow> Searchee \<Rightarrow> MediaType \<Rightarrow> nat \<Rightarrow> (string \<times> Request) list" where
  "scanRequests d cfg searchee mediaType k =
     concat (map (\<lambda>uArrL. parseRequest d uArrL
                             (scanName cfg mediaType (scanTitle d searchee mediaType) uArrL))
               (take k (getRelevantArrInstances cfg mediaType)))"

text \<open>The values of the parameter \<^verbatim>\<open>title\<close> in the query of a request.\<close>

definition titleParameter :: "Request \<Rightarrow> string list" where
  "titleParameter req = map snd (filter (\<lambda>p. fst p = ''title'') (searchParams (url req)))"

text \<open>
  An answer after which the loop goes on to the next instance: an \<open>Err\<close>, or a response
  whose \<^verbatim>\<open>movie ?? series\<close> object has no truthy member.
\<close>

fun passedOver :: "(ParsedMedia option, js_error) Result outcome \<Rightarrow> bool" where
  "passedOver (Returns (Ok (Some response))) = (\<not> someTruthyId (responseIds response))"
| "passedOver (Returns (Ok None)) = False"
| "passedOver (Returns (Err e)) = True"
| "passedOver (Throws e) = False"

subsection \<open>A concrete setting for the examples\<close>

text \<open>
  Two instances, \<^verbatim>\<open>http://s?apikey=key\<close> (the Sonarr) and \<^verbatim>\<open>http://r?apikey=key\<close>
  (the Radarr), simple stand-ins for the imported functions, and a network on which
  both answer the ping, the Sonarr knows no title and the Radarr knows every title as
  the movie with the tmdb id 603.
\<close>

definition exampleDeps :: deps where
  "exampleDeps =
     \<lparr>getApikey = (\<lambda>u. if string_includes u ''apikey='' then Some ''key'' else None),
      sanitizeUrl = takeWhile (\<lambda>c. c \<noteq> CHR ''?''),
      stripExtension = takeWhile (\<lambda>c. c \<noteq> CHR ''.''),
      cleanseSeparators = map (\<lambda>c. if c = CHR ''_'' then CHR '' '' else c),
      replace_RELEASE_GROUP = takeWhile (\<lambda>c. c \<noteq> CHR ''-''),
      replace_RESOLUTION = (\<lambda>s. s),
      replace_REPACK_PROPER = (\<lambda>s. s),
      newURL = (\<lambda>s. if take 7 s = ''http://''
                      then Some \<lparr>origin = takeWhile (\<lambda>c. c \<noteq> CHR ''?'') s, pathname = [],
                                 searchParams = (if string_includes s ''apikey=''
                                                 then [(''apikey'', ''key'')] else [])\<rparr>
                      else None),
      href = (\<lambda>u. origin u @ pathname u
                     @ (if searchParams u = [] then [] else ''?apikey=key'')),
      posixJoin = (\<lambda>a b. a @ b),
      decodeParsedMedia =
        (\<lambda>t. if t = ''{}'' then Some (Some \<lparr>movie = None, series = None, episodes = None\<rparr>)
              else if t = ''{movie:{tmdbId:603}}''
              then Some (Some \<lparr>movie = Some \<lparr>imdbId = None, tmdbId = Some ''603'', tvdbId = None,
                                               otherMembers = []\<rparr>,
                               series = None, episodes = None\<rparr>)
              else if t = ''{series:{title:The Film}}''
              then Some (Some \<lparr>movie = None,
                               series = Some \<lparr>imdbId = None, tmdbId = None, tvdbId = None,
                                                otherMembers = [(''title'', JString ''The Film'')]\<rparr>,
                               episodes = None\<rparr>)
              else if t = ''null'' then Some None
              else None),
      decodePing = (\<lambda>t. if t = ''{current:v3}'' then Some (Some \<lparr>current = Some ''v3''\<rparr>)
                         else if t = ''null'' then Some None else None)\<rparr>"

definition exampleConfig :: RuntimeConfig where
  "exampleConfig = \<lparr>sonarr = [''http://s?apikey=key''], radarr = [''http://r?apikey=key'']\<rparr>"

definition exampleNet :: network where
  "exampleNet n req =
     (if pathname (url req) = ''/api''
      then Answers \<lparr>status = 200, statusText = ''OK'', body = Inr ''{current:v3}''\<rparr>
      else if origin (url req) = ''http://s''
      then Answers \<lparr>status = 200, statusText = ''OK'', body = Inr ''{}''\<rparr>
      else if origin (url req) = ''http://r''
      then Answers \<lparr>status = 200, statusText = ''OK'', body = Inr ''{movie:{tmdbId:603}}''\<rparr>
      else NetworkFailure (JsError ''TypeError'' ''fetch failed'' None))"

definition exampleMovie :: ParsedMedia where
  "exampleMovie =
     \<lparr>movie = Some \<lparr>imdbId = None, tmdbId = Some ''603'', tvdbId = None, otherMembers = []\<rparr>,
      series = None, episodes = None\<rparr>"

text \<open>A network on which nothing answers.\<close>

definition deadNet :: network where
  "deadNet n req = NetworkFailure (JsError ''TypeError'' ''fetch failed'' None)"

text \<open>Capabilities and a series for the examples of \<^verbatim>\<open>getRelevantArrIds\<close>.\<close>

definition exampleCaps :: Caps where
  "exampleCaps =
     \<lparr>movieIdSearch = \<lparr>cap_tvdbId = False, cap_tmdbId = True, cap_imdbId = True\<rparr>,
      tvIdSearch = \<lparr>cap_tvdbId = True, cap_tmdbId = False, cap_imdbId = False\<rparr>\<rparr>"

definition exampleSeries :: ParsedMedia where
  "exampleSeries =
     \<lparr>movie = None,
      series = Some \<lparr>imdbId = Some ''tt0903747'', tmdbId = None, tvdbId = Some ''81189'',
                       otherMembers = []\<rparr>,
      episodes = Some [(1, 2)]\<rparr>"

text \<open>
  A network on which the Sonarr answers every title with a series that has a title
  and no id, while the Radarr knows the title as the movie with the tmdb id 603; and
  the response of that Sonarr.
\<close>

definition titleOnlyNet :: network where
  "titleOnlyNet n req =
     (if origin (url req) = ''http://s''
      then Answers \<lparr>status = 200, statusText = ''OK'', body = Inr ''{series:{title:The Film}}''\<rparr>
      else Answers \<lparr>status = 200, statusText = ''OK'', body = Inr ''{movie:{tmdbId:603}}''\<rparr>)"

definition titleOnlySeries :: ParsedMedia where
  "titleOnlySeries =
     \<lparr>movie = None,
      series = Some \<lparr>imdbId = None, tmdbId = None, tvdbId = None,
                       otherMembers = [(''title'', JString ''The Film'')]\<rparr>,
      episodes = None\<rparr>"

text \<open>A network on which every instance answers 200 with the body \<^verbatim>\<open>null\<close>.\<close>

definition nullBodyNet :: network where
  "nullBodyNet n req = Answers \<lparr>status = 200, statusText = ''OK'', body = Inr ''null''\<rparr>"

text \<open>The requests of \<^verbatim>\<open>getMediaFromArr\<close> in the examples.\<close>

definition exampleRequest :: "string \<Rightarrow> string \<Rightarrow> Request" where
  "exampleRequest orig title =
     \<lparr>url = \<lparr>origin = orig, pathname = ''/api/v3/parse'', searchParams = [(''title'', title)]\<rparr>,
      requestMethod = ''GET'',
      headers = [(''X-Api-Key'', Some ''key'')],
      signal = AbortSignal_timeout ms_30_seconds\<rparr>"


subsection \<open>Notions used to state what validateUArrLs does\<close>

text \<open>
  The ping that \<^verbatim>\<open>checkArrIsActive\<close> sends to the instance checked after \<open>n\<close>
  others, and what \<^verbatim>\<open>validateUArrLs\<close> finds at that instance:
  \<^item> it \<open>passes\<close>: the URL has an \<^verbatim>\<open>apikey\<close> parameter and the ping returns \<open>Ok\<close> of a
    response with a truthy \<^verbatim>\<open>current\<close>;
  \<^item> it \<open>fails\<close>: the URL has no \<^verbatim>\<open>apikey\<close> parameter, or the ping returns an \<open>Err\<close>,
    or it returns \<open>Ok\<close> of a response without a truthy \<^verbatim>\<open>current\<close>;
  \<^item> it \<open>crashes\<close>: the URL has an \<^verbatim>\<open>apikey\<close> parameter and the ping call throws.
\<close>

definition ping :: "deps \<Rightarrow> network \<Rightarrow> nat \<Rightarrow> URL \<Rightarrow> (ArrPing option, js_error) Result outcome" where
  "ping d net n u = makeArrApiCall d net n (decodePing d) (href d u) ''/api'' []"

definition hasApikey :: "URL \<Rightarrow> bool" where
  "hasApikey u = searchParams_has ''apikey'' (searchParams u)"

fun pingOk :: "(ArrPing option, js_error) Result outcome \<Rightarrow> bool" where
  "pingOk (Returns (Ok r)) = truthy (pingCurrent r)"
| "pingOk _ = False"

fun pingFails :: "(ArrPing option, js_error) Result outcome \<Rightarrow> bool" where
  "pingFails (Returns (Ok r)) = (\<not> truthy (pingCurrent r))"
| "pingFails (Returns (Err e)) = True"
| "pingFails (Throws e) = False"

fun pingThrows :: "(ArrPing option, js_error) Result outcome \<Rightarrow> bool" where
  "pingThrows (Throws e) = True"
| "pingThrows _ = False"

definition passes :: "deps \<Rightarrow> network \<Rightarrow> nat \<Rightarrow> URL \<Rightarrow> bool" where
  "passes d net n u = (hasApikey u \<and> pingOk (ping d net n u))"

definition fails :: "deps \<Rightarrow> network \<Rightarrow> nat \<Rightarrow> URL \<Rightarrow> bool" where
  "fails d net n u = (\<not> hasApikey u \<or> pingFails (ping d net n u))"

definition crashes :: "deps \<Rightarrow> network \<Rightarrow> nat \<Rightarrow> URL \<Rightarrow> bool" where
  "crashes d net n u = (hasApikey u \<and> pingThrows (ping d net n u))"

text \<open>
  The configured instances as URLs, the Sonarr ones before the Radarr ones, each with
  the number of instances before it; \<open>None\<close> where a configured string is not a URL.
\<close>

definition instances :: "deps \<Rightarrow> RuntimeConfig \<Rightarrow> (nat \<times> URL) list option" where
  "instances d cfg =
     (case those (map (newURL d) (sonarr cfg @ radarr cfg)) of
        None \<Rightarrow> None
      | Some us \<Rightarrow> Some (enumerate 0 us))"

subsection \<open>Networks on which makeArrApiCall meets its failure modes\<close>

text \<open>An instance that gives no answer before the deadline of the signal.\<close>

definition silentNet :: network where
  "silentNet n req = NoAnswerInTime"

text \<open>
  An instance that answers with the status 500 and whose body cannot be read to its
  end (the connection is lost while the body arrives): \<^verbatim>\<open>text()\<close> rejects.
\<close>

definition brokenBodyNet :: network where
  "brokenBodyNet n req =
     Answers \<lparr>status = 500, statusText = ''Internal Server Error'',
              body = Inl (JsError ''TypeError'' ''terminated'' None)\<rparr>"

section \<open>The database module (src/unnamed/part_001)\<close>

text \<open>
  The module opens the file \<^verbatim>\<open>cross-seed.db\<close> with \<^verbatim>\<open>better-sqlite3\<close>, sets its
  journal mode, closes it, and creates two Knex handles: \<^verbatim>\<open>db\<close> on the file and
  \<^verbatim>\<open>memDB\<close> on \<^verbatim>\<open>":memory:"\<close>, in which it creates two tables. The state is an
  explicit store of databases, one for each thing a connection can be connected to,
  with the log of what the module did to it. The journal mode is a property of the
  database file (SQLite keeps WAL mode in the file across connections); the pragma is
  taken to succeed.
\<close>

datatype Target = File string | Memory

record Column =
  columnName :: string
  columnType :: string
  primary :: bool

record Table =
  columns :: "Column list"
  rows :: "string option list list"

record Database =
  journal_mode :: string
  tables :: "string \<rightharpoonup> Table"

datatype Event =
    SqliteOpen string
  | SqlitePragma string string
  | SqliteClose string
  | KnexCreate Target
  | SchemaCreateTable Target string

record World =
  databases :: "Target \<rightharpoonup> Database"
  canOpen :: "string \<Rightarrow> bool"
  events :: "Event list"

text \<open>A Knex handle: the \<^verbatim>\<open>client\<close> and the \<^verbatim>\<open>connection\<close> of its configuration.\<close>

record Knex =
  client :: string
  connection :: Target
  useNullAsDefault :: bool

definition newDatabase :: "string \<Rightarrow> Database" where
  "newDatabase mode = \<lparr>journal_mode = mode, tables = Map.empty\<rparr>"

text \<open>\<^verbatim>\<open>new Sqlite(filename)\<close>: opens the file, which it creates where there is none, and
  throws where it cannot be opened.\<close>

definition Sqlite_open :: "string \<Rightarrow> World \<Rightarrow> World outcome" where
  "Sqlite_open filename w =
     (if canOpen w filename
      then Returns (w\<lparr>databases := (databases w)(File filename \<mapsto>
                          (case databases w (File filename) of
                             None \<Rightarrow> newDatabase ''delete''
                           | Some d \<Rightarrow> d)),
                       events := events w @ [SqliteOpen filename]\<rparr>)
      else Throws (Uncaught (JsError ''SqliteError'' ''unable to open database file'' None)))"

text \<open>\<^verbatim>\<open>handle.pragma(source)\<close> on the open file; only the pragma of the module is
  interpreted.\<close>

definition Sqlite_pragma :: "string \<Rightarrow> string \<Rightarrow> World \<Rightarrow> World" where
  "Sqlite_pragma filename source w =
     w\<lparr>databases :=
         (case databases w (File filename) of
            None \<Rightarrow> databases w
          | Some d \<Rightarrow>
              if source = ''journal_mode = WAL''
              then (databases w)(File filename \<mapsto> d\<lparr>journal_mode := ''wal''\<rparr>)
              else databases w),
       events := events w @ [SqlitePragma filename source]\<rparr>"

definition Sqlite_close :: "string \<Rightarrow> World \<Rightarrow> World" where
  "Sqlite_close filename w = w\<lparr>events := events w @ [SqliteClose filename]\<rparr>"

text \<open>\<^verbatim>\<open>Knex.knex({client: "better-sqlite3", connection, useNullAsDefault: true})\<close>. A
  connection to \<^verbatim>\<open>":memory:"\<close> has a fresh database of its own; one to a file uses the
  database of the file.\<close>

definition Knex_knex :: "Target \<Rightarrow> World \<Rightarrow> Knex \<times> World" where
  "Knex_knex t w =
     (\<lparr>client = ''better-sqlite3'', connection = t, useNullAsDefault = True\<rparr>,
      w\<lparr>databases := (case t of
                          Memory \<Rightarrow> (databases w)(Memory \<mapsto> newDatabase ''memory'')
                        | File f \<Rightarrow> databases w),
        events := events w @ [KnexCreate t]\<rparr>)"

text \<open>\<^verbatim>\<open>knex.schema.createTable(name, ...)\<close>: rejects where the handle has no database or
  the table exists.\<close>

definition createTable :: "Knex \<Rightarrow> string \<Rightarrow> Column list \<Rightarrow> World \<Rightarrow> World outcome" where
  "createTable knex tableName cols w =
     (case databases w (connection knex) of
        None \<Rightarrow> Throws (Uncaught (JsError ''Error'' ''no database'' None))
      | Some d \<Rightarrow>
          if tableName \<in> dom (tables d)
          then Throws (Uncaught (JsError ''SqliteError'' ''table already exists'' None))
          else Returns
                 (w\<lparr>databases := (databases w)(connection knex \<mapsto>
                        d\<lparr>tables := (tables d)(tableName \<mapsto> \<lparr>columns = cols, rows = []\<rparr>)\<rparr>),
                    events := events w @ [SchemaCreateTable (connection knex) tableName]\<rparr>))"

text \<open>\<^verbatim>\<open>table.string(name)\<close> and \<^verbatim>\<open>table.string(name).primary()\<close>.\<close>

definition table_string :: "string \<Rightarrow> Column" where
  "table_string n = \<lparr>columnName = n, columnType = ''string'', primary = False\<rparr>"

definition table_string_primary :: "string \<Rightarrow> Column" where
  "table_string_primary n = \<lparr>columnName = n, columnType = ''string'', primary = True\<rparr>"

text \<open>
  The statements of the module in their order. \<open>join\<close> is \<^verbatim>\<open>join\<close> of \<^verbatim>\<open>path\<close> and
  \<open>appDir\<close> is the value of \<^verbatim>\<open>appDir()\<close> of \<^verbatim>\<open>configuration.js\<close>, which is not among
  the sources. The result is the two exported handles \<^verbatim>\<open>db\<close> and \<^verbatim>\<open>memDB\<close>.
\<close>

definition moduleInit ::
  "(string \<Rightarrow> string \<Rightarrow> string) \<Rightarrow> string \<Rightarrow> World \<Rightarrow> (Knex \<times> Knex \<times> World) outcome" where
  "moduleInit join appDir w =
     (let filename = join appDir ''cross-seed.db''
      in case Sqlite_open filename w of
           Throws e \<Rightarrow> Throws e
         | Returns w1 \<Rightarrow>
             (let w2 = Sqlite_pragma filename ''journal_mode = WAL'' w1;
                  w3 = Sqlite_close filename w2;
                  (db, w4) = Knex_knex (File filename) w3;
                  (memDB, w5) = Knex_knex Memory w4
              in case createTable memDB ''data''
                        [table_string_primary ''path'', table_string ''title''] w5 of
                   Throws e \<Rightarrow> Throws e
                 | Returns w6 \<Rightarrow>
                     (case createTable memDB ''ensemble''
                             [table_string_primary ''path'', table_string ''ensemble'',
                              table_string ''element''] w6 of
                        Throws e \<Rightarrow> Throws e
                      | Returns w7 \<Rightarrow> Returns (db, memDB, w7))))"

text \<open>
  Any later access through a Knex handle: a query, an insertion, a deletion or a
  change of schema is a function on the tables of the database the handle is
  connected to. \<open>tableOps\<close> runs a sequence of them, each with its handle.
\<close>

definition tableOp :: "Knex \<Rightarrow> ((string \<rightharpoonup> Table) \<Rightarrow> (string \<rightharpoonup> Table)) \<Rightarrow> World \<Rightarrow> World" where
  "tableOp knex f w =
     (case databases w (connection knex) of
        None \<Rightarrow> w
      | Some d \<Rightarrow> w\<lparr>databases := (databases w)(connection knex \<mapsto> d\<lparr>tables := f (tables d)\<rparr>)\<rparr>)"

fun tableOps :: "(Knex \<times> ((string \<rightharpoonup> Table) \<Rightarrow> (string \<rightharpoonup> Table))) list \<Rightarrow> World \<Rightarrow> World" where
  "tableOps [] w = w"
| "tableOps ((knex, f) # ops) w = tableOps ops (tableOp knex f w)"

text \<open>A world without databases in which every file can be opened, for the examples.\<close>

definition emptyWorld :: World where
  "emptyWorld = \<lparr>databases = Map.empty, canOpen = (\<lambda>f. True), events = []\<rparr>"

definition exampleJoin :: "string \<Rightarrow> string \<Rightarrow> string" where
  "exampleJoin a b = a @ ''/'' @ b"

section \<open>makeArrApiCall and the requests it sends\<close>

text \<open>
  The result of \<^verbatim>\<open>makeArrApiCall\<close> by cases, and what it sends: the request that
  \<open>arrRequest\<close> builds, once, or nothing where the URL is invalid.
\<close>

lemma searchParams_set_filter:
  "filter (\<lambda>p. fst p = n) (searchParams_set n v ps) = [(n, v)]"
  by (induction ps) (auto simp: filter_empty_conv)

lemma searchParams_set_others:
  "k \<noteq> n \<Longrightarrow> filter (\<lambda>p. fst p = k) (searchParams_set n v ps) = filter (\<lambda>p. fst p = k) ps"
  by (induction ps) (auto intro: filter_cong)

lemma makeArrApiCall_unfold:
  "makeArrApiCall d net n decode uArrL resourcePath params =
     (case arrRequest d uArrL resourcePath params of
        None \<Rightarrow> Throws invalidURL
      | Some req \<Rightarrow>
          (case fetch net n req of
             Inl networkError \<Rightarrow>
               if errName networkError = ''AbortError''
               then Returns (Err (Error ''connection timeout''))
               else Returns (Err networkError)
           | Inr response \<Rightarrow>
               if \<not> ok response then
                 (case text_of response of
                    Inl e \<Rightarrow> Throws (Uncaught e)
                  | Inr responseText \<Rightarrow>
                      Returns (Err (Error (show_nat (status response) @ '' '' @ statusText response
                                             @ '' '' @ getBodySampleMessage responseText))))
               else
                 (case json_of decode response of
                    Some responseBody \<Rightarrow> Returns (Ok responseBody)
                  | None \<Rightarrow>
                      (case text_of response of
                         Inl e \<Rightarrow> Throws (Uncaught e)
                       | Inr responseText \<Rightarrow>
                           Returns (Err (Error (''Arr response was non-JSON. ''
                                                  @ getBodySampleMessage responseText)))))))"
  by (simp add: makeArrApiCall_def makeArrApiCallSent_def fetchSent_def split: option.splits)

lemma makeArrApiCallSent_requests:
  "snd (makeArrApiCallSent d net n decode uArrL resourcePath params) =
     (case arrRequest d uArrL resourcePath params of None \<Rightarrow> [] | Some req \<Rightarrow> [(uArrL, req)])"
  by (simp add: makeArrApiCallSent_def fetchSent_def split: option.splits)

lemma getMediaFromArr_result:
  "fst (getMediaFromArr d net n uArrL title) =
     makeArrApiCall d net n (decodeParsedMedia d) uArrL ''/api/v3/parse'' [(''title'', title)]"
  by (simp add: getMediaFromArr_def makeArrApiCall_def)

lemma getMediaFromArr_requests:
  "snd (getMediaFromArr d net n uArrL title) = parseRequest d uArrL title"
  by (simp add: getMediaFromArr_def makeArrApiCallSent_requests parseRequest_def)

section \<open>The loop of scanAllArrsForMedia\<close>

text \<open>The definitions that the examples unfold.\<close>

lemmas example_defs =
  scanAnswer_def getRelevantArrInstances_def exampleConfig_def getMediaFromArr_def makeArrApiCall_unfold
  makeArrApiCallSent_def fetchSent_def
  arrRequest_def exampleDeps_def exampleNet_def fetch_def ok_def json_of_def text_of_def exampleMovie_def
  scanName_def scanTitle_def responseIds_def someTruthyId_def isTruthy_def emptyIds_def

text \<open>
  One turn of the loop: after an answer that is passed over it goes on, after any other
  it ends. What it reports as sent is what each call of \<^verbatim>\<open>getMediaFromArr\<close> sent.
\<close>

lemma scanLoop_go:
  "passedOver (fst (getMediaFromArr d net n u (scanName cfg mt title u))) \<Longrightarrow>
   scanLoop d net cfg mt title n (u # us) =
     (fst (scanLoop d net cfg mt title (Suc n) us),
      parseRequest d u (scanName cfg mt title u) @ snd (scanLoop d net cfg mt title (Suc n) us))"
  using getMediaFromArr_requests [of d net n u "scanName cfg mt title u"]
  by (cases "getMediaFromArr d net n u (scanName cfg mt title u)";
      cases "fst (getMediaFromArr d net n u (scanName cfg mt title u))" rule: passedOver.cases)
     (simp_all add: Let_def case_prod_beta)

lemma scanLoop_stop:
  "\<not> passedOver (fst (getMediaFromArr d net n u (scanName cfg mt title u))) \<Longrightarrow>
   scanLoop d net cfg mt title n (u # us) =
     ((case fst (getMediaFromArr d net n u (scanName cfg mt title u)) of
         Throws e \<Rightarrow> Throws e
       | Returns (Ok None) \<Rightarrow> Throws nullResponse
       | Returns (Ok (Some r)) \<Rightarrow> Returns (Ok r)
       | Returns (Err e) \<Rightarrow> Returns (Err False)),
      parseRequest d u (scanName cfg mt title u))"
  using getMediaFromArr_requests [of d net n u "scanName cfg mt title u"]
  by (cases "getMediaFromArr d net n u (scanName cfg mt title u)";
      cases "fst (getMediaFromArr d net n u (scanName cfg mt title u))" rule: passedOver.cases)
     (simp_all add: Let_def case_prod_beta)

lemma scanLoop_requests:
  "(uArrL, req) \<in> set (snd (scanLoop d net cfg mt title n xs)) \<Longrightarrow>
   uArrL \<in> set xs
   \<and> arrRequest d uArrL ''/api/v3/parse'' [(''title'', scanName cfg mt title uArrL)] = Some req"
proof (induction xs arbitrary: n)
  case Nil
  then show ?case by simp
next
  case (Cons u us)
  have here: "uArrL = u \<and> arrRequest d uArrL ''/api/v3/parse'' [(''title'', scanName cfg mt title uArrL)] = Some req"
    if "(uArrL, req) \<in> set (parseRequest d u (scanName cfg mt title u))"
    using that by (auto simp: parseRequest_def split: option.splits)
  show ?case
  proof (cases "passedOver (fst (getMediaFromArr d net n u (scanName cfg mt title u)))")
    case True
    with Cons.prems have "(uArrL, req) \<in> set (parseRequest d u (scanName cfg mt title u))
        \<or> (uArrL, req) \<in> set (snd (scanLoop d net cfg mt title (Suc n) us))"
      by (simp add: scanLoop_go del: scanLoop.simps)
    then show ?thesis using here Cons.IH by auto
  next
    case False
    with Cons.prems have "(uArrL, req) \<in> set (parseRequest d u (scanName cfg mt title u))"
      by (simp add: scanLoop_stop del: scanLoop.simps)
    then show ?thesis using here by auto
  qed
qed

lemma scanLoop_prefix:
  "\<exists>k\<le>length xs. snd (scanLoop d net cfg mt title n xs) =
      concat (map (\<lambda>u. parseRequest d u (scanName cfg mt title u)) (take k xs))"
proof (induction xs arbitrary: n)
  case Nil
  then show ?case by simp
next
  case (Cons u us)
  show ?case
  proof (cases "passedOver (fst (getMediaFromArr d net n u (scanName cfg mt title u)))")
    case True
    obtain k where k: "k \<le> length us"
      "snd (scanLoop d net cfg mt title (Suc n) us) =
         concat (map (\<lambda>u. parseRequest d u (scanName cfg mt title u)) (take k us))"
      using Cons.IH by blast
    with True have "snd (scanLoop d net cfg mt title n (u # us)) =
        concat (map (\<lambda>u. parseRequest d u (scanName cfg mt title u)) (take (Suc k) (u # us)))"
      by (simp add: scanLoop_go del: scanLoop.simps)
    moreover have "Suc k \<le> length (u # us)" using k(1) by simp
    ultimately show ?thesis by blast
  next
    case False
    then have "snd (scanLoop d net cfg mt title n (u # us)) =
        concat (map (\<lambda>u. parseRequest d u (scanName cfg mt title u)) (take (Suc 0) (u # us)))"
      by (simp add: scanLoop_stop del: scanLoop.simps)
    moreover have "Suc 0 \<le> length (u # us)" by simp
    ultimately show ?thesis by blast
  qed
qed

lemma scanLoop_hit:
  "k < length xs \<Longrightarrow>
   (\<forall>j<k. passedOver (fst (getMediaFromArr d net (n + j) (xs ! j) (scanName cfg mt title (xs ! j))))) \<Longrightarrow>
   fst (getMediaFromArr d net (n + k) (xs ! k) (scanName cfg mt title (xs ! k))) = Returns (Ok (Some r)) \<Longrightarrow>
   someTruthyId (responseIds r) \<Longrightarrow>
   scanLoop d net cfg mt title n xs =
     (Returns (Ok r),
      concat (map (\<lambda>u. parseRequest d u (scanName cfg mt title u)) (take (Suc k) xs)))"
proof (induction xs arbitrary: n k)
  case Nil
  then show ?case by simp
next
  case (Cons u us)
  show ?case
  proof (cases k)
    case 0
    with Cons.prems(3,4) show ?thesis by (simp add: scanLoop_stop del: scanLoop.simps)
  next
    case (Suc k')
    have p0: "passedOver (fst (getMediaFromArr d net n u (scanName cfg mt title u)))"
      using Cons.prems(2) Suc by (metis add.right_neutral nth_Cons_0 zero_less_Suc)
    have IH: "scanLoop d net cfg mt title (Suc n) us =
       (Returns (Ok r),
        concat (map (\<lambda>u. parseRequest d u (scanName cfg mt title u)) (take (Suc k') us)))"
    proof (rule Cons.IH)
      show "k' < length us" using Cons.prems(1) Suc by simp
      show "\<forall>j<k'. passedOver (fst (getMediaFromArr d net (Suc n + j) (us ! j) (scanName cfg mt title (us ! j))))"
      proof (intro allI impI)
        fix j assume "j < k'"
        then have "Suc j < k" using Suc by simp
        with Cons.prems(2) have "passedOver (fst (getMediaFromArr d net (n + Suc j) ((u # us) ! Suc j)
            (scanName cfg mt title ((u # us) ! Suc j))))"
          by blast
        then show "passedOver (fst (getMediaFromArr d net (Suc n + j) (us ! j) (scanName cfg mt title (us ! j))))"
          by simp
      qed
      show "fst (getMediaFromArr d net (Suc n + k') (us ! k') (scanName cfg mt title (us ! k'))) = Returns (Ok (Some r))"
        using Cons.prems(3) Suc by simp
      show "someTruthyId (responseIds r)" by (rule Cons.prems(4))
    qed
    from p0 IH Suc show ?thesis by (simp add: scanLoop_go del: scanLoop.simps)
  qed
qed

lemma scanLoop_miss:
  "(\<forall>j<length xs. passedOver (fst (getMediaFromArr d net (n + j) (xs ! j) (scanName cfg mt title (xs ! j))))) \<Longrightarrow>
   scanLoop d net cfg mt title n xs =
     (Returns (Err False), concat (map (\<lambda>u. parseRequest d u (scanName cfg mt title u)) xs))"
proof (induction xs arbitrary: n)
  case Nil
  then show ?case by simp
next
  case (Cons u us)
  from Cons.prems have p0: "passedOver (fst (getMediaFromArr d net n u (scanName cfg mt title u)))"
    and rest: "\<forall>j<length us. passedOver (fst (getMediaFromArr d net (Suc n + j) (us ! j) (scanName cfg mt title (us ! j))))"
    by (simp_all add: All_less_Suc2)
  from Cons.IH [OF rest] p0 show ?case by (simp add: scanLoop_go del: scanLoop.simps)
qed

lemma scanLoop_Throws:
  "fst (scanLoop d net cfg mt title n xs) = Throws e \<Longrightarrow>
   \<exists>k<length xs.
     fst (getMediaFromArr d net (n + k) (xs ! k) (scanName cfg mt title (xs ! k))) = Throws e
     \<or> (fst (getMediaFromArr d net (n + k) (xs ! k) (scanName cfg mt title (xs ! k))) = Returns (Ok None)
         \<and> e = nullResponse)"
proof (induction xs arbitrary: n)
  case Nil
  then show ?case by simp
next
  case (Cons u us)
  let ?a = "fst (getMediaFromArr d net n u (scanName cfg mt title u))"
  show ?case
  proof (cases "passedOver ?a")
    case True
    with Cons.prems have "fst (scanLoop d net cfg mt title (Suc n) us) = Throws e"
      by (simp add: scanLoop_go del: scanLoop.simps)
    from Cons.IH [OF this] obtain k where "k < length us"
      "fst (getMediaFromArr d net (Suc n + k) (us ! k) (scanName cfg mt title (us ! k))) = Throws e
       \<or> (fst (getMediaFromArr d net (Suc n + k) (us ! k) (scanName cfg mt title (us ! k))) = Returns (Ok None)
           \<and> e = nullResponse)"
      by blast
    then have "Suc k < length (u # us)"
      "fst (getMediaFromArr d net (n + Suc k) ((u # us) ! Suc k) (scanName cfg mt title ((u # us) ! Suc k))) = Throws e
       \<or> (fst (getMediaFromArr d net (n + Suc k) ((u # us) ! Suc k) (scanName cfg mt title ((u # us) ! Suc k))) = Returns (Ok None)
           \<and> e = nullResponse)"
      by simp_all
    then show ?thesis by blast
  next
    case False
    with Cons.prems have "?a = Throws e \<or> (?a = Returns (Ok None) \<and> e = nullResponse)"
      by (cases ?a rule: passedOver.cases) (auto simp: scanLoop_stop simp del: scanLoop.simps)
    then have "fst (getMediaFromArr d net (n + 0) ((u # us) ! 0) (scanName cfg mt title ((u # us) ! 0))) = Throws e
       \<or> (fst (getMediaFromArr d net (n + 0) ((u # us) ! 0) (scanName cfg mt title ((u # us) ! 0))) = Returns (Ok None)
           \<and> e = nullResponse)"
      by simp
    then show ?thesis by (intro exI [of _ 0]) simp
  qed
qed

lemma scanAllArrsForMedia_loop:
  "scanAllArrsForMedia d net cfg s mt =
     scanLoop d net cfg mt (scanTitle d s mt) 0 (getRelevantArrInstances cfg mt)"
  by (cases "getRelevantArrInstances cfg mt") (simp_all add: scanAllArrsForMedia_def Let_def)

lemma scanAllArrsForMedia_requests:
  "(uArrL, req) \<in> set (snd (scanAllArrsForMedia d net cfg s mt)) \<Longrightarrow>
   uArrL \<in> set (getRelevantArrInstances cfg mt)
   \<and> arrRequest d uArrL ''/api/v3/parse''
        [(''title'', scanName cfg mt (scanTitle d s mt) uArrL)] = Some req"
  unfolding scanAllArrsForMedia_loop by (rule scanLoop_requests)

lemma arrRequest_titleParameter:
  "arrRequest d uArrL ''/api/v3/parse'' [(''title'', title)] = Some req \<Longrightarrow> titleParameter req = [title]"
  by (auto simp: arrRequest_def Let_def titleParameter_def searchParams_set_filter split: option.splits)

text \<open>
  What \<^verbatim>\<open>scanAllArrsForMedia\<close> does, for every network and every imported helper:
  the requests sent are those of the calls to the first \<open>k\<close> relevant instances, in
  their order, for some \<open>k\<close>; where the answers before the \<open>k\<close>-th are passed over and
  the \<open>k\<close>-th is a response whose \<^verbatim>\<open>movie ?? series\<close> object has a truthy member,
  the result is \<open>Ok\<close> of that response and no later instance is called; where every
  answer is passed over, the result is \<open>Err False\<close> after a call to each instance; and
  it throws only what a call threw, or the \<^verbatim>\<open>TypeError\<close> of a body \<^verbatim>\<open>null\<close>.
\<close>

lemma scanAnswer_nth:
  "scanAnswer d net cfg s mt j =
     fst (getMediaFromArr d net (0 + j) (getRelevantArrInstances cfg mt ! j)
            (scanName cfg mt (scanTitle d s mt) (getRelevantArrInstances cfg mt ! j)))"
  by (simp add: scanAnswer_def Let_def)

lemma scanAllArrsForMedia_characterised:
  "(\<exists>k\<le>length (getRelevantArrInstances cfg mt).
         snd (scanAllArrsForMedia d net cfg s mt) = scanRequests d cfg s mt k)
   \<and> (\<forall>k r. k < length (getRelevantArrInstances cfg mt)
          \<and> (\<forall>j<k. passedOver (scanAnswer d net cfg s mt j))
          \<and> scanAnswer d net cfg s mt k = Returns (Ok (Some r))
          \<and> someTruthyId (responseIds r)
        \<longrightarrow> scanAllArrsForMedia d net cfg s mt = (Returns (Ok r), scanRequests d cfg s mt (Suc k)))
   \<and> ((\<forall>j<length (getRelevantArrInstances cfg mt). passedOver (scanAnswer d net cfg s mt j)) \<longrightarrow>
        scanAllArrsForMedia d net cfg s mt =
          (Returns (Err False), scanRequests d cfg s mt (length (getRelevantArrInstances cfg mt))))
   \<and> (\<forall>e. fst (scanAllArrsForMedia d net cfg s mt) = Throws e \<longrightarrow>
        (\<exists>j<length (getRelevantArrInstances cfg mt).
           scanAnswer d net cfg s mt j = Throws e
           \<or> (scanAnswer d net cfg s mt j = Returns (Ok None) \<and> e = nullResponse)))"
proof (intro conjI allI impI)
  show "\<exists>k\<le>length (getRelevantArrInstances cfg mt).
         snd (scanAllArrsForMedia d net cfg s mt) = scanRequests d cfg s mt k"
    unfolding scanAllArrsForMedia_loop scanRequests_def by (rule scanLoop_prefix)
next
  fix k r
  assume h: "k < length (getRelevantArrInstances cfg mt)
          \<and> (\<forall>j<k. passedOver (scanAnswer d net cfg s mt j))
          \<and> scanAnswer d net cfg s mt k = Returns (Ok (Some r))
          \<and> someTruthyId (responseIds r)"
  show "scanAllArrsForMedia d net cfg s mt = (Returns (Ok r), scanRequests d cfg s mt (Suc k))"
    unfolding scanAllArrsForMedia_loop scanRequests_def
    using h unfolding scanAnswer_nth by (intro scanLoop_hit) simp_all
next
  assume "\<forall>j<length (getRelevantArrInstances cfg mt). passedOver (scanAnswer d net cfg s mt j)"
  then show "scanAllArrsForMedia d net cfg s mt =
        (Returns (Err False), scanRequests d cfg s mt (length (getRelevantArrInstances cfg mt)))"
    unfolding scanAllArrsForMedia_loop scanRequests_def scanAnswer_nth
    by (simp add: scanLoop_miss)
next
  fix e
  assume "fst (scanAllArrsForMedia d net cfg s mt) = Throws e"
  then show "\<exists>j<length (getRelevantArrInstances cfg mt).
           scanAnswer d net cfg s mt j = Throws e
           \<or> (scanAnswer d net cfg s mt j = Returns (Ok None) \<and> e = nullResponse)"
    unfolding scanAllArrsForMedia_loop scanAnswer_nth by (rule scanLoop_Throws)
qed

text \<open>The scans of the examples.\<close>

lemmas scan_example_defs =
  scanAllArrsForMedia_def example_defs exampleRequest_def parseRequest_def

lemma example_scan_OTHER:
  "scanAllArrsForMedia exampleDeps exampleNet exampleConfig \<lparr>name = ''The_Film-GRP.mkv''\<rparr> OTHER =
     (Returns (Ok exampleMovie),
      [(''http://s?apikey=key'', exampleRequest ''http://s'' ''The Film S00E00''),
       (''http://r?apikey=key'', exampleRequest ''http://r'' ''The Film'')])"
  by (simp add: scan_example_defs)

lemma example_scan_MOVIE:
  "scanAllArrsForMedia exampleDeps exampleNet exampleConfig \<lparr>name = ''The_Film-GRP.mkv''\<rparr> MOVIE =
     (Returns (Ok exampleMovie),
      [(''http://r?apikey=key'', exampleRequest ''http://r'' ''The_Film-GRP.mkv'')])"
  by (simp add: scan_example_defs)

lemma example_scan_dead:
  "scanAllArrsForMedia exampleDeps deadNet exampleConfig \<lparr>name = ''The_Film-GRP.mkv''\<rparr> OTHER =
     (Returns (Err False),
      [(''http://s?apikey=key'', exampleRequest ''http://s'' ''The Film S00E00''),
       (''http://r?apikey=key'', exampleRequest ''http://r'' ''The Film'')])"
  by (simp add: scan_example_defs deadNet_def)

section \<open>Claims about scanAllArrsForMedia\<close>

text \<open>
  C1 says that the loop returns \<open>Ok\<close> with the first response whose movie or series
  object contains a truthy external id. The code tests every member of that object
  (\<^verbatim>\<open>Object.values(ids).some(isTruthy)\<close>), not the three ids alone, so a response
  whose object has a truthy title and no id is returned, and no later instance is
  asked. Here the Sonarr answers with such a series; it is returned, and the Radarr,
  which answers with the tmdb id 603, is not called.
\<close>

theorem scanAllArrsForMedia_accepts_title_only:
  "scanAllArrsForMedia exampleDeps titleOnlyNet exampleConfig \<lparr>name = ''The_Film-GRP.mkv''\<rparr> OTHER =
     (Returns (Ok titleOnlySeries),
      [(''http://s?apikey=key'', exampleRequest ''http://s'' ''The Film S00E00'')])
   \<and> \<not> someTruthyExternalId (responseIds titleOnlySeries)
   \<and> fst (getMediaFromArr exampleDeps titleOnlyNet 1 ''http://r?apikey=key'' ''The Film'') =
       Returns (Ok (Some exampleMovie))
   \<and> someTruthyExternalId (responseIds exampleMovie)"
  by (simp add: scan_example_defs titleOnlyNet_def titleOnlySeries_def someTruthyExternalId_def)

text \<open>
  C2. Every request that \<^verbatim>\<open>scanAllArrsForMedia\<close> has \<^verbatim>\<open>fetch\<close> send is the request
  that \<^verbatim>\<open>makeArrApiCall\<close> builds for its instance, the path \<^verbatim>\<open>/api/v3/parse\<close> and
  one parameter \<^verbatim>\<open>title\<close>. Where the media type is \<open>OTHER\<close> and the instance is in
  the configured Sonarr list, the title in the query of the request is the cleaned
  title followed by \<^verbatim>\<open>" S00E00"\<close>; where the instance is not in the Sonarr list, or
  the media type is not \<open>OTHER\<close>, it is the title with nothing appended.
\<close>

theorem scanAllArrsForMedia_S00E00:
  "\<forall>(uArrL, req) \<in> set (snd (scanAllArrsForMedia d net cfg s mt)).
     (mt = OTHER \<and> uArrL \<in> set (sonarr cfg) \<longrightarrow>
        arrRequest d uArrL ''/api/v3/parse'' [(''title'', scanTitle d s OTHER @ '' S00E00'')] = Some req
        \<and> titleParameter req = [scanTitle d s OTHER @ '' S00E00''])
     \<and> (mt \<noteq> OTHER \<or> uArrL \<notin> set (sonarr cfg) \<longrightarrow>
        arrRequest d uArrL ''/api/v3/parse'' [(''title'', scanTitle d s mt)] = Some req
        \<and> titleParameter req = [scanTitle d s mt])"
proof (intro ballI, clarify)
  fix uArrL req
  assume "(uArrL, req) \<in> set (snd (scanAllArrsForMedia d net cfg s mt))"
  then have r: "arrRequest d uArrL ''/api/v3/parse''
        [(''title'', scanName cfg mt (scanTitle d s mt) uArrL)] = Some req"
    using scanAllArrsForMedia_requests by blast
  then have t: "titleParameter req = [scanName cfg mt (scanTitle d s mt) uArrL]"
    by (rule arrRequest_titleParameter)
  from r t show "(mt = OTHER \<and> uArrL \<in> set (sonarr cfg) \<longrightarrow>
        arrRequest d uArrL ''/api/v3/parse'' [(''title'', scanTitle d s OTHER @ '' S00E00'')] = Some req
        \<and> titleParameter req = [scanTitle d s OTHER @ '' S00E00''])
     \<and> (mt \<noteq> OTHER \<or> uArrL \<notin> set (sonarr cfg) \<longrightarrow>
        arrRequest d uArrL ''/api/v3/parse'' [(''title'', scanTitle d s mt)] = Some req
        \<and> titleParameter req = [scanTitle d s mt])"
    by (auto simp: scanName_def)
qed

theorem scanAllArrsForMedia_S00E00_witness:
  "(''http://s?apikey=key'', exampleRequest ''http://s'' ''The Film S00E00'') \<in>
      set (snd (scanAllArrsForMedia exampleDeps exampleNet exampleConfig \<lparr>name = ''The_Film-GRP.mkv''\<rparr> OTHER))
   \<and> ''http://s?apikey=key'' \<in> set (sonarr exampleConfig)
   \<and> titleParameter (exampleRequest ''http://s'' ''The Film S00E00'') =
       [scanTitle exampleDeps \<lparr>name = ''The_Film-GRP.mkv''\<rparr> OTHER @ '' S00E00'']
   \<and> scanTitle exampleDeps \<lparr>name = ''The_Film-GRP.mkv''\<rparr> OTHER @ '' S00E00'' = ''The Film S00E00''
   \<and> (''http://r?apikey=key'', exampleRequest ''http://r'' ''The Film'') \<in>
      set (snd (scanAllArrsForMedia exampleDeps exampleNet exampleConfig \<lparr>name = ''The_Film-GRP.mkv''\<rparr> OTHER))
   \<and> ''http://r?apikey=key'' \<notin> set (sonarr exampleConfig)
   \<and> titleParameter (exampleRequest ''http://r'' ''The Film'') =
       [scanTitle exampleDeps \<lparr>name = ''The_Film-GRP.mkv''\<rparr> OTHER]
   \<and> scanTitle exampleDeps \<lparr>name = ''The_Film-GRP.mkv''\<rparr> OTHER = ''The Film''"
proof -
  let ?s = "\<lparr>name = ''The_Film-GRP.mkv''\<rparr>"
  have c1: "(''http://s?apikey=key'', exampleRequest ''http://s'' ''The Film S00E00'') \<in>
      set (snd (scanAllArrsForMedia exampleDeps exampleNet exampleConfig ?s OTHER))"
    and c2: "(''http://r?apikey=key'', exampleRequest ''http://r'' ''The Film'') \<in>
      set (snd (scanAllArrsForMedia exampleDeps exampleNet exampleConfig ?s OTHER))"
    by (simp_all add: scan_example_defs)
  have s1: "''http://s?apikey=key'' \<in> set (sonarr exampleConfig)"
    and s2: "''http://r?apikey=key'' \<notin> set (sonarr exampleConfig)"
    by (simp_all add: exampleConfig_def)
  have t: "scanTitle exampleDeps ?s OTHER = ''The Film''"
    by (simp add: scanTitle_def exampleDeps_def)
  from scanAllArrsForMedia_S00E00 [of exampleDeps exampleNet exampleConfig ?s OTHER] c1 s1
  have 1: "titleParameter (exampleRequest ''http://s'' ''The Film S00E00'') =
       [scanTitle exampleDeps ?s OTHER @ '' S00E00'']" by fastforce
  from scanAllArrsForMedia_S00E00 [of exampleDeps exampleNet exampleConfig ?s OTHER] c2 s2
  have 2: "titleParameter (exampleRequest ''http://r'' ''The Film'') = [scanTitle exampleDeps ?s OTHER]"
    by fastforce
  have t': "scanTitle exampleDeps ?s OTHER @ '' S00E00'' = ''The Film S00E00''"
    by (simp add: t)
  from c1 c2 s1 s2 1 2 t t' show ?thesis by (intro conjI)
qed

text \<open>
  C10. Of every request that \<^verbatim>\<open>scanAllArrsForMedia\<close> has \<^verbatim>\<open>fetch\<close> send: for a
  media type other than \<open>OTHER\<close> the title in its query is \<^verbatim>\<open>searchee.name\<close> as it
  is; for \<open>OTHER\<close> it is the name with the extension stripped, the release group, the
  resolution and the repack/proper tokens replaced by nothing, in this order, and the
  separators cleansed (followed by the suffix of C2 for a Sonarr instance).
\<close>

theorem scanAllArrsForMedia_title:
  "\<forall>(uArrL, req) \<in> set (snd (scanAllArrsForMedia d net cfg s mt)).
     (mt \<noteq> OTHER \<longrightarrow>
        arrRequest d uArrL ''/api/v3/parse'' [(''title'', name s)] = Some req
        \<and> titleParameter req = [name s])
     \<and> (mt = OTHER \<longrightarrow>
        titleParameter req =
          [cleanseSeparators d
             (replace_REPACK_PROPER d
               (replace_RESOLUTION d
                 (replace_RELEASE_GROUP d (stripExtension d (name s)))))
           @ (if uArrL \<in> set (sonarr cfg) then '' S00E00'' else [])])"
proof (intro ballI, clarify)
  fix uArrL req
  assume "(uArrL, req) \<in> set (snd (scanAllArrsForMedia d net cfg s mt))"
  then have r: "arrRequest d uArrL ''/api/v3/parse''
        [(''title'', scanName cfg mt (scanTitle d s mt) uArrL)] = Some req"
    using scanAllArrsForMedia_requests by blast
  then have t: "titleParameter req = [scanName cfg mt (scanTitle d s mt) uArrL]"
    by (rule arrRequest_titleParameter)
  from r t show "(mt \<noteq> OTHER \<longrightarrow>
        arrRequest d uArrL ''/api/v3/parse'' [(''title'', name s)] = Some req
        \<and> titleParameter req = [name s])
     \<and> (mt = OTHER \<longrightarrow>
        titleParameter req =
          [cleanseSeparators d
             (replace_REPACK_PROPER d
               (replace_RESOLUTION d
                 (replace_RELEASE_GROUP d (stripExtension d (name s)))))
           @ (if uArrL \<in> set (sonarr cfg) then '' S00E00'' else [])])"
    by (auto simp: scanName_def scanTitle_def)
qed

theorem scanAllArrsForMedia_title_witness:
  "(''http://r?apikey=key'', exampleRequest ''http://r'' ''The_Film-GRP.mkv'') \<in>
      set (snd (scanAllArrsForMedia exampleDeps exampleNet exampleConfig \<lparr>name = ''The_Film-GRP.mkv''\<rparr> MOVIE))
   \<and> MOVIE \<noteq> OTHER
   \<and> titleParameter (exampleRequest ''http://r'' ''The_Film-GRP.mkv'') = [name \<lparr>name = ''The_Film-GRP.mkv''\<rparr>]
   \<and> (''http://r?apikey=key'', exampleRequest ''http://r'' ''The Film'') \<in>
      set (snd (scanAllArrsForMedia exampleDeps exampleNet exampleConfig \<lparr>name = ''The_Film-GRP.mkv''\<rparr> OTHER))
   \<and> ''http://r?apikey=key'' \<notin> set (sonarr exampleConfig)
   \<and> titleParameter (exampleRequest ''http://r'' ''The Film'') =
       [cleanseSeparators exampleDeps
         (replace_REPACK_PROPER exampleDeps
           (replace_RESOLUTION exampleDeps
             (replace_RELEASE_GROUP exampleDeps (stripExtension exampleDeps ''The_Film-GRP.mkv''))))]
   \<and> (''http://s?apikey=key'', exampleRequest ''http://s'' ''The Film S00E00'') \<in>
      set (snd (scanAllArrsForMedia exampleDeps exampleNet exampleConfig \<lparr>name = ''The_Film-GRP.mkv''\<rparr> OTHER))
   \<and> ''http://s?apikey=key'' \<in> set (sonarr exampleConfig)
   \<and> titleParameter (exampleRequest ''http://s'' ''The Film S00E00'') =
       [cleanseSeparators exampleDeps
         (replace_REPACK_PROPER exampleDeps
           (replace_RESOLUTION exampleDeps
             (replace_RELEASE_GROUP exampleDeps (stripExtension exampleDeps ''The_Film-GRP.mkv''))))
        @ '' S00E00'']
   \<and> cleanseSeparators exampleDeps
         (replace_REPACK_PROPER exampleDeps
           (replace_RESOLUTION exampleDeps
             (replace_RELEASE_GROUP exampleDeps (stripExtension exampleDeps ''The_Film-GRP.mkv'')))) =
       ''The Film''"
proof -
  let ?s = "\<lparr>name = ''The_Film-GRP.mkv''\<rparr>"
  have m: "(''http://r?apikey=key'', exampleRequest ''http://r'' ''The_Film-GRP.mkv'') \<in>
      set (snd (scanAllArrsForMedia exampleDeps exampleNet exampleConfig ?s MOVIE))"
    by (simp add: scan_example_defs)
  have o: "(''http://r?apikey=key'', exampleRequest ''http://r'' ''The Film'') \<in>
      set (snd (scanAllArrsForMedia exampleDeps exampleNet exampleConfig ?s OTHER))"
    and os: "(''http://s?apikey=key'', exampleRequest ''http://s'' ''The Film S00E00'') \<in>
      set (snd (scanAllArrsForMedia exampleDeps exampleNet exampleConfig ?s OTHER))"
    by (simp_all add: scan_example_defs)
  have r: "''http://r?apikey=key'' \<notin> set (sonarr exampleConfig)"
    and sn: "''http://s?apikey=key'' \<in> set (sonarr exampleConfig)"
    by (simp_all add: exampleConfig_def)
  from scanAllArrsForMedia_title [of exampleDeps exampleNet exampleConfig ?s MOVIE] m
  have 1: "titleParameter (exampleRequest ''http://r'' ''The_Film-GRP.mkv'') = [name ?s]" by fastforce
  from scanAllArrsForMedia_title [of exampleDeps exampleNet exampleConfig ?s OTHER] o r
  have 2: "titleParameter (exampleRequest ''http://r'' ''The Film'') =
       [cleanseSeparators exampleDeps
         (replace_REPACK_PROPER exampleDeps
           (replace_RESOLUTION exampleDeps
             (replace_RELEASE_GROUP exampleDeps (stripExtension exampleDeps (name ?s)))))]"
    by fastforce
  from scanAllArrsForMedia_title [of exampleDeps exampleNet exampleConfig ?s OTHER] os sn
  have 3: "titleParameter (exampleRequest ''http://s'' ''The Film S00E00'') =
       [cleanseSeparators exampleDeps
         (replace_REPACK_PROPER exampleDeps
           (replace_RESOLUTION exampleDeps
             (replace_RELEASE_GROUP exampleDeps (stripExtension exampleDeps (name ?s)))))
        @ '' S00E00'']"
    by fastforce
  have 4: "cleanseSeparators exampleDeps
         (replace_REPACK_PROPER exampleDeps
           (replace_RESOLUTION exampleDeps
             (replace_RELEASE_GROUP exampleDeps (stripExtension exampleDeps ''The_Film-GRP.mkv'')))) =
       ''The Film''"
    by (simp add: exampleDeps_def)
  from m o r os sn 1 2 3 4 show ?thesis by simp
qed

text \<open>
  C3 says that \<^verbatim>\<open>scanAllArrsForMedia\<close> never throws on lookup failure and returns
  \<open>Err False\<close> where every queried instance errors. It throws where the only queried
  instance answers 500 with a body that cannot be read: what \<^verbatim>\<open>makeArrApiCall\<close>
  throws there (see C9) passes through the loop, which has no \<^verbatim>\<open>try\<close>. It throws as
  well where the instance answers 200 with the body \<^verbatim>\<open>null\<close>: the loop reads
  \<^verbatim>\<open>response.movie\<close> of it, unguarded, while \<^verbatim>\<open>checkArrIsActive\<close> guards the same
  read with \<^verbatim>\<open>?.\<close>.
\<close>

theorem scanAllArrsForMedia_throws_on_lookup_failure:
  "scanAllArrsForMedia exampleDeps brokenBodyNet exampleConfig \<lparr>name = ''The_Film-GRP.mkv''\<rparr> MOVIE =
     (Throws (Uncaught (JsError ''TypeError'' ''terminated'' None)),
      [(''http://r?apikey=key'', exampleRequest ''http://r'' ''The_Film-GRP.mkv'')])
   \<and> scanAllArrsForMedia exampleDeps nullBodyNet exampleConfig \<lparr>name = ''The_Film-GRP.mkv''\<rparr> MOVIE =
     (Throws nullResponse,
      [(''http://r?apikey=key'', exampleRequest ''http://r'' ''The_Film-GRP.mkv'')])"
  by (simp add: scan_example_defs brokenBodyNet_def nullBodyNet_def)

section \<open>Claims about getRelevantArrIds\<close>

text \<open>
  C4. For every capability record and every parsed media with a \<^verbatim>\<open>movie\<close>, the movie
  capabilities are the ones consulted; with a \<^verbatim>\<open>series\<close> and no \<^verbatim>\<open>movie\<close>, the TV
  capabilities are. Each of \<^verbatim>\<open>tvdbid\<close>, \<^verbatim>\<open>tmdbid\<close>, \<^verbatim>\<open>imdbid\<close> of the result is the
  id of the movie (of the series) where the flag of that name in the consulted
  capabilities is set, and \<^verbatim>\<open>undefined\<close> otherwise. The declared type
  \<^verbatim>\<open>ParsedMovie | ParsedSeries\<close> has no other value.
\<close>

theorem getRelevantArrIds_by_caps:
  "(\<forall>m. movie parsedMedia = Some m \<longrightarrow>
      getRelevantArrIds caps parsedMedia =
        Returns \<lparr>tvdbid = (if cap_tvdbId (movieIdSearch caps) then tvdbId m else None),
                 tmdbid = (if cap_tmdbId (movieIdSearch caps) then tmdbId m else None),
                 imdbid = (if cap_imdbId (movieIdSearch caps) then imdbId m else None)\<rparr>)
   \<and> (\<forall>s. movie parsedMedia = None \<and> series parsedMedia = Some s \<longrightarrow>
      getRelevantArrIds caps parsedMedia =
        Returns \<lparr>tvdbid = (if cap_tvdbId (tvIdSearch caps) then tvdbId s else None),
                 tmdbid = (if cap_tmdbId (tvIdSearch caps) then tmdbId s else None),
                 imdbid = (if cap_imdbId (tvIdSearch caps) then imdbId s else None)\<rparr>)"
  by (simp add: getRelevantArrIds_def)

theorem getRelevantArrIds_by_caps_witness:
  "isParsedMovie exampleMovie
   \<and> getRelevantArrIds exampleCaps exampleMovie =
       Returns \<lparr>tvdbid = None, tmdbid = Some ''603'', imdbid = None\<rparr>
   \<and> isParsedSeries exampleSeries
   \<and> getRelevantArrIds exampleCaps exampleSeries =
       Returns \<lparr>tvdbid = Some ''81189'', tmdbid = None, imdbid = None\<rparr>"
proof -
  have m: "movie exampleMovie =
      Some \<lparr>imdbId = None, tmdbId = Some ''603'', tvdbId = None, otherMembers = []\<rparr>"
    by (simp add: exampleMovie_def)
  have s: "movie exampleSeries = None \<and>
      series exampleSeries =
        Some \<lparr>imdbId = Some ''tt0903747'', tmdbId = None, tvdbId = Some ''81189'', otherMembers = []\<rparr>"
    by (simp add: exampleSeries_def)
  from getRelevantArrIds_by_caps [of exampleMovie exampleCaps] m
  have 1: "getRelevantArrIds exampleCaps exampleMovie =
       Returns \<lparr>tvdbid = None, tmdbid = Some ''603'', imdbid = None\<rparr>"
    by (simp add: exampleCaps_def)
  from getRelevantArrIds_by_caps [of exampleSeries exampleCaps] s
  have 2: "getRelevantArrIds exampleCaps exampleSeries =
       Returns \<lparr>tvdbid = Some ''81189'', tmdbid = None, imdbid = None\<rparr>"
    by (simp add: exampleCaps_def)
  have "isParsedMovie exampleMovie" "isParsedSeries exampleSeries"
    by (simp_all add: isParsedMovie_def isParsedSeries_def exampleMovie_def exampleSeries_def)
  with 1 2 show ?thesis by simp
qed

section \<open>The loops of validateUArrLs\<close>

text \<open>\<^verbatim>\<open>makeArrApiCall\<close> throws no \<^verbatim>\<open>CrossSeedError\<close>.\<close>

lemma makeArrApiCall_Throws_Uncaught:
  "makeArrApiCall d net n decode uArrL path params = Throws e \<Longrightarrow> \<exists>x. e = Uncaught x"
  by (auto simp: makeArrApiCall_unfold invalidURL_def split: option.splits sum.splits if_splits)

lemma three_ways: "passes d net n u \<or> fails d net n u \<or> crashes d net n u"
  by (cases "ping d net n u" rule: pingFails.cases) (auto simp: passes_def fails_def crashes_def)

lemma passes_not_fails: "passes d net n u \<Longrightarrow> \<not> fails d net n u"
  by (cases "ping d net n u" rule: pingFails.cases) (auto simp: passes_def fails_def)

lemma checkArrIsActive_ping:
  "checkArrIsActive d net n (href d u) l =
     (case ping d net n u of
        Throws e \<Rightarrow> Throws e
      | Returns (Ok r) \<Rightarrow>
          if \<not> truthy (pingCurrent r)
          then Throws (CrossSeedError (''Failed to establish a connection to '' @ l @ '' URL: '' @ href d u) None)
          else Returns ()
      | Returns (Err error) \<Rightarrow>
          Throws (CrossSeedError (''Could not contact '' @ l @ '' at '' @ href d u)
            (Some (case errCause error of
                     Some cause \<Rightarrow> if string_includes (errMessage error) ''fetch failed'' then cause else error
                   | None \<Rightarrow> error))))"
  by (simp add: checkArrIsActive_def ping_def)

lemma checkUrls_step:
  "checkUrls d net l n (u # us) =
     (if passes d net n u then checkUrls d net l (Suc n) us
      else if fails d net n u
      then (if \<not> hasApikey u
            then Throws (CrossSeedError (l @ '' url '' @ href d u @ '' does not specify an apikey'') None)
            else checkArrIsActive d net n (href d u) l)
      else checkArrIsActive d net n (href d u) l)"
  by (cases "ping d net n u" rule: pingFails.cases)
     (auto simp: passes_def fails_def hasApikey_def checkArrIsActive_ping)

lemma checkUrls_first:
  "passes d net n u \<Longrightarrow> checkUrls d net l n (u # us) = checkUrls d net l (Suc n) us"
  "fails d net n u \<Longrightarrow> isCrossSeedError (checkUrls d net l n (u # us))"
  "crashes d net n u \<Longrightarrow> \<exists>x. checkUrls d net l n (u # us) = Throws (Uncaught x)"
proof -
  show "passes d net n u \<Longrightarrow> checkUrls d net l n (u # us) = checkUrls d net l (Suc n) us"
    by (subst checkUrls_step) simp
  show "fails d net n u \<Longrightarrow> isCrossSeedError (checkUrls d net l n (u # us))"
    by (cases "ping d net n u" rule: pingFails.cases)
       (auto simp: fails_def hasApikey_def checkArrIsActive_ping)
  show "crashes d net n u \<Longrightarrow> \<exists>x. checkUrls d net l n (u # us) = Throws (Uncaught x)"
  proof -
    assume c: "crashes d net n u"
    then obtain e where e: "ping d net n u = Throws e" and k: "hasApikey u"
      by (cases "ping d net n u" rule: pingFails.cases) (auto simp: crashes_def)
    from e obtain x where "e = Uncaught x"
      unfolding ping_def by (blast dest: makeArrApiCall_Throws_Uncaught)
    with e k show ?thesis
      by (simp add: hasApikey_def checkArrIsActive_ping)
  qed
qed

lemma checkUrls_Returns:
  "(\<forall>i<length us. passes d net (n + i) (us ! i)) \<Longrightarrow> checkUrls d net l n us = Returns ()"
proof (induction us arbitrary: n)
  case Nil
  then show ?case by simp
next
  case (Cons u us)
  from Cons.prems have p: "passes d net n u" and
    rest: "\<forall>i<length us. passes d net (Suc n + i) (us ! i)"
    by (simp_all add: All_less_Suc2)
  from Cons.IH [OF rest] p show ?case by (simp only: checkUrls_first(1))
qed

lemma checkUrls_CrossSeedError:
  "isCrossSeedError (checkUrls d net l n us) \<longleftrightarrow>
     (\<exists>i<length us. fails d net (n + i) (us ! i) \<and> (\<forall>j<i. passes d net (n + j) (us ! j)))"
proof (induction us arbitrary: n)
  case Nil
  then show ?case by simp
next
  case (Cons u us)
  consider (p) "passes d net n u" | (f) "fails d net n u" | (c) "crashes d net n u"
    using three_ways by blast
  then show ?case
  proof cases
    case p
    then have nf: "\<not> fails d net n u" by (rule passes_not_fails)
    have "isCrossSeedError (checkUrls d net l n (u # us)) \<longleftrightarrow> isCrossSeedError (checkUrls d net l (Suc n) us)"
      using p by (simp only: checkUrls_first(1))
    also have "\<dots> \<longleftrightarrow> (\<exists>i<length us. fails d net (Suc n + i) (us ! i) \<and> (\<forall>j<i. passes d net (Suc n + j) (us ! j)))"
      by (rule Cons.IH)
    also have "\<dots> \<longleftrightarrow> (\<exists>i<length (u # us). fails d net (n + i) ((u # us) ! i) \<and> (\<forall>j<i. passes d net (n + j) ((u # us) ! j)))"
      using p nf by (simp add: Ex_less_Suc2 All_less_Suc2)
    finally show ?thesis .
  next
    case f
    then have "isCrossSeedError (checkUrls d net l n (u # us))" by (rule checkUrls_first(2))
    moreover have "\<exists>i<length (u # us). fails d net (n + i) ((u # us) ! i) \<and> (\<forall>j<i. passes d net (n + j) ((u # us) ! j))"
      using f by (intro exI [of _ 0]) simp
    ultimately show ?thesis by blast
  next
    case c
    then obtain x where x: "checkUrls d net l n (u # us) = Throws (Uncaught x)"
      using checkUrls_first(3) by blast
    from c have np: "\<not> passes d net n u" and nf: "\<not> fails d net n u"
      by (cases "ping d net n u" rule: pingFails.cases; auto simp: crashes_def passes_def fails_def)+
    have "\<not> (\<exists>i<length (u # us). fails d net (n + i) ((u # us) ! i) \<and> (\<forall>j<i. passes d net (n + j) ((u # us) ! j)))"
      using np nf by (simp add: Ex_less_Suc2 All_less_Suc2)
    with x show ?thesis by simp
  qed
qed

lemma checkUrls_Returns_iff:
  "checkUrls d net l n us = Returns () \<longleftrightarrow> (\<forall>i<length us. passes d net (n + i) (us ! i))"
proof (induction us arbitrary: n)
  case Nil
  then show ?case by simp
next
  case (Cons u us)
  consider (p) "passes d net n u" | (f) "fails d net n u" | (c) "crashes d net n u"
    using three_ways by blast
  then show ?case
  proof cases
    case p
    have "checkUrls d net l n (u # us) = Returns () \<longleftrightarrow> checkUrls d net l (Suc n) us = Returns ()"
      using p by (simp only: checkUrls_first(1))
    also have "\<dots> \<longleftrightarrow> (\<forall>i<length us. passes d net (Suc n + i) (us ! i))"
      by (rule Cons.IH)
    also have "\<dots> \<longleftrightarrow> (\<forall>i<length (u # us). passes d net (n + i) ((u # us) ! i))"
      using p by (simp add: All_less_Suc2)
    finally show ?thesis .
  next
    case f
    then have "isCrossSeedError (checkUrls d net l n (u # us))" by (rule checkUrls_first(2))
    then have "checkUrls d net l n (u # us) \<noteq> Returns ()" by auto
    moreover have "\<not> passes d net n u" using f passes_not_fails by blast
    then have "\<not> (\<forall>i<length (u # us). passes d net (n + i) ((u # us) ! i))"
      by (simp add: All_less_Suc2)
    ultimately show ?thesis by blast
  next
    case c
    then obtain x where x: "checkUrls d net l n (u # us) = Throws (Uncaught x)"
      using checkUrls_first(3) by blast
    from c have "\<not> passes d net n u"
      by (cases "ping d net n u" rule: pingFails.cases) (auto simp: crashes_def passes_def)
    then have "\<not> (\<forall>i<length (u # us). passes d net (n + i) ((u # us) ! i))"
      by (simp add: All_less_Suc2)
    with x show ?thesis by simp
  qed
qed

lemma those_append:
  "those (xs @ ys) = (case those xs of None \<Rightarrow> None
                      | Some as \<Rightarrow> (case those ys of None \<Rightarrow> None | Some bs \<Rightarrow> Some (as @ bs)))"
  by (induction xs) (auto split: option.splits)

lemma validateUArrLs_parsed:
  assumes "those (map (newURL d) (sonarr cfg)) = Some ss"
    and "those (map (newURL d) (radarr cfg)) = Some rs"
  shows "validateUArrLs d net cfg =
     (case checkUrls d net ''Sonarr'' 0 ss of
        Throws e \<Rightarrow> Throws e
      | Returns _ \<Rightarrow> checkUrls d net ''Radarr'' (length ss) rs)"
  using assms by (simp add: validateUArrLs_def split: outcome.splits)

lemma validateUArrLs_Returns:
  assumes "those (map (newURL d) (sonarr cfg)) = Some ss"
    and "those (map (newURL d) (radarr cfg)) = Some rs"
  shows "validateUArrLs d net cfg = Returns () \<longleftrightarrow>
     (\<forall>i<length (ss @ rs). passes d net i ((ss @ rs) ! i))"
proof -
  have "validateUArrLs d net cfg = Returns () \<longleftrightarrow>
      checkUrls d net ''Sonarr'' 0 ss = Returns () \<and> checkUrls d net ''Radarr'' (length ss) rs = Returns ()"
    by (auto simp: validateUArrLs_parsed [OF assms] split: outcome.splits)
  also have "\<dots> \<longleftrightarrow> (\<forall>i<length ss. passes d net i (ss ! i))
       \<and> (\<forall>k<length rs. passes d net (length ss + k) (rs ! k))"
    by (simp add: checkUrls_Returns_iff)
  also have "\<dots> \<longleftrightarrow> (\<forall>i<length (ss @ rs). passes d net i ((ss @ rs) ! i))"
  proof (intro iffI conjI allI impI)
    fix i
    assume h: "(\<forall>i<length ss. passes d net i (ss ! i)) \<and> (\<forall>k<length rs. passes d net (length ss + k) (rs ! k))"
      and i: "i < length (ss @ rs)"
    show "passes d net i ((ss @ rs) ! i)"
    proof (cases "i < length ss")
      case True
      with h show ?thesis by (simp add: nth_append)
    next
      case False
      then have "i - length ss < length rs" "length ss + (i - length ss) = i" using i by simp_all
      with h False show ?thesis by (metis nth_append)
    qed
  next
    fix i
    assume h: "\<forall>i<length (ss @ rs). passes d net i ((ss @ rs) ! i)" and i: "i < length ss"
    have "i < length (ss @ rs)" using i by simp
    with h have "passes d net i ((ss @ rs) ! i)" by blast
    with i show "passes d net i (ss ! i)" by (simp add: nth_append)
  next
    fix k
    assume h: "\<forall>i<length (ss @ rs). passes d net i ((ss @ rs) ! i)" and k: "k < length rs"
    have "length ss + k < length (ss @ rs)" using k by simp
    with h have "passes d net (length ss + k) ((ss @ rs) ! (length ss + k))" by blast
    then show "passes d net (length ss + k) (rs ! k)" by simp
  qed
  finally show ?thesis .
qed

lemma validateUArrLs_first_failure:
  assumes "those (map (newURL d) (sonarr cfg)) = Some ss"
    and "those (map (newURL d) (radarr cfg)) = Some rs"
  shows "isCrossSeedError (validateUArrLs d net cfg) \<longleftrightarrow>
     (\<exists>i<length (ss @ rs). fails d net i ((ss @ rs) ! i) \<and> (\<forall>j<i. passes d net j ((ss @ rs) ! j)))"
    (is "?L \<longleftrightarrow> ?R")
proof
  assume ?L
  then consider (s) "isCrossSeedError (checkUrls d net ''Sonarr'' 0 ss)"
    | (r) "checkUrls d net ''Sonarr'' 0 ss = Returns ()" "isCrossSeedError (checkUrls d net ''Radarr'' (length ss) rs)"
    by (auto simp: validateUArrLs_parsed [OF assms] split: outcome.splits)
  then show ?R
  proof cases
    case s
    then obtain i where i: "i < length ss" "fails d net i (ss ! i)" "\<forall>j<i. passes d net j (ss ! j)"
      by (auto simp: checkUrls_CrossSeedError)
    then have "fails d net i ((ss @ rs) ! i) \<and> (\<forall>j<i. passes d net j ((ss @ rs) ! j))"
      by (simp add: nth_append)
    moreover have "i < length (ss @ rs)" using i(1) by simp
    ultimately show ?thesis by blast
  next
    case r
    from r(1) have all: "\<forall>i<length ss. passes d net i (ss ! i)"
      by (simp add: checkUrls_Returns_iff)
    from r(2) obtain k where k: "k < length rs" "fails d net (length ss + k) (rs ! k)"
      "\<forall>j<k. passes d net (length ss + j) (rs ! j)"
      by (auto simp: checkUrls_CrossSeedError)
    have "\<forall>j<length ss + k. passes d net j ((ss @ rs) ! j)"
    proof (intro allI impI)
      fix j assume j: "j < length ss + k"
      show "passes d net j ((ss @ rs) ! j)"
      proof (cases "j < length ss")
        case True
        with all show ?thesis by (simp add: nth_append)
      next
        case False
        then have "j - length ss < k" "length ss + (j - length ss) = j" using j by simp_all
        with k(3) False show ?thesis by (metis nth_append)
      qed
    qed
    moreover have "fails d net (length ss + k) ((ss @ rs) ! (length ss + k))" using k(2) by simp
    moreover have "length ss + k < length (ss @ rs)" using k(1) by simp
    ultimately show ?thesis by blast
  qed
next
  assume ?R
  then obtain i where i: "i < length (ss @ rs)" "fails d net i ((ss @ rs) ! i)"
    "\<forall>j<i. passes d net j ((ss @ rs) ! j)" by blast
  show ?L
  proof (cases "i < length ss")
    case True
    with i have "fails d net (0 + i) (ss ! i) \<and> (\<forall>j<i. passes d net (0 + j) (ss ! j))"
      by (simp add: nth_append)
    with True have "isCrossSeedError (checkUrls d net ''Sonarr'' 0 ss)"
      unfolding checkUrls_CrossSeedError by blast
    then show ?thesis
      by (cases "checkUrls d net ''Sonarr'' 0 ss") (simp_all add: validateUArrLs_parsed [OF assms])
  next
    case False
    define k where "k = i - length ss"
    have ik: "i = length ss + k" using False by (simp add: k_def)
    have "\<forall>j<length ss. passes d net (0 + j) (ss ! j)"
    proof (intro allI impI)
      fix j assume j: "j < length ss"
      then have "j < i" using False by simp
      with i(3) have "passes d net j ((ss @ rs) ! j)" by blast
      with j show "passes d net (0 + j) (ss ! j)" by (simp add: nth_append)
    qed
    then have s: "checkUrls d net ''Sonarr'' 0 ss = Returns ()"
      by (simp only: checkUrls_Returns_iff)
    have "k < length rs" using i(1) ik by simp
    moreover have "fails d net (length ss + k) (rs ! k)" using i(2) ik by simp
    moreover have "\<forall>j<k. passes d net (length ss + j) (rs ! j)"
    proof (intro allI impI)
      fix j assume "j < k"
      then have "length ss + j < i" using ik by simp
      with i(3) have "passes d net (length ss + j) ((ss @ rs) ! (length ss + j))" by blast
      then show "passes d net (length ss + j) (rs ! j)" by simp
    qed
    ultimately have "isCrossSeedError (checkUrls d net ''Radarr'' (length ss) rs)"
      unfolding checkUrls_CrossSeedError by blast
    with s show ?thesis by (simp add: validateUArrLs_parsed [OF assms])
  qed
qed

lemma instances_split:
  assumes "instances d cfg = Some ius"
  obtains ss rs where "those (map (newURL d) (sonarr cfg)) = Some ss"
    and "those (map (newURL d) (radarr cfg)) = Some rs"
    and "ius = enumerate 0 (ss @ rs)"
  using assms by (auto simp: instances_def those_append split: option.splits)

lemma in_instances:
  "(n, u) \<in> set (enumerate 0 us) \<longleftrightarrow> n < length us \<and> us ! n = u"
  by (auto simp: in_set_enumerate_eq)

lemmas validate_defs =
  validateUArrLs_def checkArrIsActive_def hasApikey_def searchParams_has_def ping_def passes_def fails_def
  crashes_def instances_def

lemma example_instances:
  "instances exampleDeps exampleConfig =
     Some [(0, \<lparr>origin = ''http://s'', pathname = [], searchParams = [(''apikey'', ''key'')]\<rparr>),
           (1, \<lparr>origin = ''http://r'', pathname = [], searchParams = [(''apikey'', ''key'')]\<rparr>)]"
  by (simp add: instances_def exampleDeps_def exampleConfig_def enumerate_eq_zip)

text \<open>
  What \<^verbatim>\<open>validateUArrLs\<close> does where every configured string is a URL. An instance
  fails where its URL has no \<^verbatim>\<open>apikey\<close> parameter, or its ping of \<^verbatim>\<open>/api\<close> returns
  an \<open>Err\<close>, or the ping's response has no truthy \<^verbatim>\<open>current\<close>. A
  \<^verbatim>\<open>CrossSeedError\<close> is thrown if and only if some configured instance fails and all
  before it pass; where no ping call throws, if and only if some instance fails. Where
  every instance passes, \<^verbatim>\<open>validateUArrLs\<close> returns.
\<close>

lemma validateUArrLs_characterised:
  "instances d cfg = Some ius \<Longrightarrow>
     (isCrossSeedError (validateUArrLs d net cfg) \<longleftrightarrow>
        (\<exists>(n, u) \<in> set ius. fails d net n u \<and> (\<forall>(m, v) \<in> set ius. m < n \<longrightarrow> passes d net m v)))
     \<and> (isCrossSeedError (validateUArrLs d net cfg) \<longrightarrow> (\<exists>(n, u) \<in> set ius. fails d net n u))
     \<and> ((\<forall>(n, u) \<in> set ius. \<not> crashes d net n u) \<longrightarrow>
          (isCrossSeedError (validateUArrLs d net cfg) \<longleftrightarrow> (\<exists>(n, u) \<in> set ius. fails d net n u)))
     \<and> ((\<forall>(n, u) \<in> set ius. passes d net n u) \<longrightarrow> validateUArrLs d net cfg = Returns ())"
proof -
  assume "instances d cfg = Some ius"
  then obtain ss rs where ss: "those (map (newURL d) (sonarr cfg)) = Some ss"
    and rs: "those (map (newURL d) (radarr cfg)) = Some rs"
    and ius: "ius = enumerate 0 (ss @ rs)"
    by (rule instances_split)
  let ?us = "ss @ rs"
  have ex: "(\<exists>(n, u) \<in> set ius. fails d net n u) \<longleftrightarrow> (\<exists>i<length ?us. fails d net i (?us ! i))"
    unfolding ius by (auto simp: in_instances)
  have nocrash: "(\<forall>(n, u) \<in> set ius. \<not> crashes d net n u) \<longleftrightarrow> (\<forall>i<length ?us. \<not> crashes d net i (?us ! i))"
    unfolding ius by (auto simp: in_instances)
  have allpass: "(\<forall>(n, u) \<in> set ius. passes d net n u) \<longleftrightarrow> (\<forall>i<length ?us. passes d net i (?us ! i))"
    unfolding ius by (auto simp: in_instances)
  have first: "(\<exists>(n, u) \<in> set ius. fails d net n u \<and> (\<forall>(m, v) \<in> set ius. m < n \<longrightarrow> passes d net m v))
      \<longleftrightarrow> (\<exists>i<length ?us. fails d net i (?us ! i) \<and> (\<forall>j<i. passes d net j (?us ! j)))"
  proof
    assume "\<exists>(n, u) \<in> set ius. fails d net n u \<and> (\<forall>(m, v) \<in> set ius. m < n \<longrightarrow> passes d net m v)"
    then obtain n u where nu: "(n, u) \<in> set ius" "fails d net n u"
      and before: "\<forall>(m, v) \<in> set ius. m < n \<longrightarrow> passes d net m v"
      by blast
    from nu(1) have n: "n < length ?us" "?us ! n = u" unfolding ius by (simp_all add: in_instances)
    have "\<forall>j<n. passes d net j (?us ! j)"
    proof (intro allI impI)
      fix j assume j: "j < n"
      then have "(j, ?us ! j) \<in> set ius" unfolding ius using n(1) by (simp add: in_instances)
      with before j show "passes d net j (?us ! j)" by blast
    qed
    with n nu(2) show "\<exists>i<length ?us. fails d net i (?us ! i) \<and> (\<forall>j<i. passes d net j (?us ! j))"
      by blast
  next
    assume "\<exists>i<length ?us. fails d net i (?us ! i) \<and> (\<forall>j<i. passes d net j (?us ! j))"
    then obtain i where i: "i < length ?us" "fails d net i (?us ! i)" "\<forall>j<i. passes d net j (?us ! j)"
      by blast
    have "(i, ?us ! i) \<in> set ius" unfolding ius using i(1) by (simp add: in_instances)
    moreover have "\<forall>(m, v) \<in> set ius. m < i \<longrightarrow> passes d net m v"
      unfolding ius using i(3) by (auto simp: in_instances)
    ultimately show "\<exists>(n, u) \<in> set ius. fails d net n u \<and> (\<forall>(m, v) \<in> set ius. m < n \<longrightarrow> passes d net m v)"
      using i(2) by blast
  qed
  have only_if: "\<exists>i<length ?us. fails d net i (?us ! i)" if "isCrossSeedError (validateUArrLs d net cfg)"
    using that unfolding validateUArrLs_first_failure [OF ss rs] by blast
  have "if": "isCrossSeedError (validateUArrLs d net cfg)"
    if some: "\<exists>i<length ?us. fails d net i (?us ! i)"
      and nc: "\<forall>i<length ?us. \<not> crashes d net i (?us ! i)"
  proof -
    let ?P = "\<lambda>i. i < length ?us \<and> fails d net i (?us ! i)"
    from some have "\<exists>i. ?P i" by blast
    then obtain i where i: "?P i" and least: "\<forall>j<i. \<not> ?P j"
      unfolding exists_least_iff [of ?P] by blast
    have "\<forall>j<i. passes d net j (?us ! j)"
    proof (intro allI impI)
      fix j assume j: "j < i"
      then have jl: "j < length ?us" using i by simp
      with least j have "\<not> fails d net j (?us ! j)" by blast
      moreover from nc jl have "\<not> crashes d net j (?us ! j)" by blast
      ultimately show "passes d net j (?us ! j)" using three_ways by blast
    qed
    with i show ?thesis
      unfolding validateUArrLs_first_failure [OF ss rs] by blast
  qed
  show ?thesis
    unfolding ex nocrash allpass first
    using only_if "if" validateUArrLs_Returns [OF ss rs, of net]
      validateUArrLs_first_failure [OF ss rs, of net] by blast
qed

lemma example_validateUArrLs:
  "instances exampleDeps exampleConfig =
     Some [(0, \<lparr>origin = ''http://s'', pathname = [], searchParams = [(''apikey'', ''key'')]\<rparr>),
           (1, \<lparr>origin = ''http://r'', pathname = [], searchParams = [(''apikey'', ''key'')]\<rparr>)]
   \<and> passes exampleDeps exampleNet 0 \<lparr>origin = ''http://s'', pathname = [], searchParams = [(''apikey'', ''key'')]\<rparr>
   \<and> passes exampleDeps exampleNet 1 \<lparr>origin = ''http://r'', pathname = [], searchParams = [(''apikey'', ''key'')]\<rparr>
   \<and> validateUArrLs exampleDeps exampleNet exampleConfig = Returns ()
   \<and> fails exampleDeps deadNet 0 \<lparr>origin = ''http://s'', pathname = [], searchParams = [(''apikey'', ''key'')]\<rparr>
   \<and> \<not> crashes exampleDeps deadNet 0 \<lparr>origin = ''http://s'', pathname = [], searchParams = [(''apikey'', ''key'')]\<rparr>
   \<and> \<not> crashes exampleDeps deadNet 1 \<lparr>origin = ''http://r'', pathname = [], searchParams = [(''apikey'', ''key'')]\<rparr>
   \<and> isCrossSeedError (validateUArrLs exampleDeps deadNet exampleConfig)"
proof -
  let ?s = "\<lparr>origin = ''http://s'', pathname = [], searchParams = [(''apikey'', ''key'')]\<rparr>"
  let ?r = "\<lparr>origin = ''http://r'', pathname = [], searchParams = [(''apikey'', ''key'')]\<rparr>"
  have p0: "passes exampleDeps exampleNet 0 ?s" and p1: "passes exampleDeps exampleNet 1 ?r"
    by (simp_all add: validate_defs example_defs)
  have f0: "fails exampleDeps deadNet 0 ?s"
    by (simp add: validate_defs example_defs deadNet_def)
  have c0: "\<not> crashes exampleDeps deadNet 0 ?s" and c1: "\<not> crashes exampleDeps deadNet 1 ?r"
    by (simp_all add: validate_defs example_defs deadNet_def)
  from validateUArrLs_characterised [OF example_instances, of exampleNet] p0 p1
  have ok: "validateUArrLs exampleDeps exampleNet exampleConfig = Returns ()" by simp
  from validateUArrLs_characterised [OF example_instances, of deadNet] f0 c0 c1
  have bad: "isCrossSeedError (validateUArrLs exampleDeps deadNet exampleConfig)" by simp
  from example_instances p0 p1 ok f0 c0 c1 bad show ?thesis by blast
qed

section \<open>Claims about validateUArrLs\<close>

text \<open>
  C5 says that \<^verbatim>\<open>validateUArrLs\<close> throws a \<^verbatim>\<open>CrossSeedError\<close> if and only if some
  configured URL lacks an \<^verbatim>\<open>apikey\<close>, or its ping fails, or the ping's response has no
  truthy \<^verbatim>\<open>current\<close>. Here the ping of the Sonarr, whose URL has an \<^verbatim>\<open>apikey\<close>,
  meets the status 500 with a body that cannot be read, and the URL of the Radarr has no
  \<^verbatim>\<open>apikey\<close>: a ping fails and a URL lacks its key, yet what \<^verbatim>\<open>validateUArrLs\<close>
  throws is the \<^verbatim>\<open>TypeError\<close> that left \<^verbatim>\<open>makeArrApiCall\<close> (see C9), which
  \<^verbatim>\<open>checkArrIsActive\<close> does not catch, and not a \<^verbatim>\<open>CrossSeedError\<close>.
\<close>

theorem validateUArrLs_throws_TypeError:
  "validateUArrLs exampleDeps brokenBodyNet
     \<lparr>sonarr = [''http://s?apikey=key''], radarr = [''http://r'']\<rparr> =
     Throws (Uncaught (JsError ''TypeError'' ''terminated'' None))
   \<and> \<not> isCrossSeedError (validateUArrLs exampleDeps brokenBodyNet
          \<lparr>sonarr = [''http://s?apikey=key''], radarr = [''http://r'']\<rparr>)"
  by (simp add: validateUArrLs_def checkArrIsActive_def searchParams_has_def makeArrApiCall_unfold
      arrRequest_def exampleDeps_def brokenBodyNet_def fetch_def ok_def text_of_def)

section \<open>makeArrApiCall: the request and the failure modes\<close>

text \<open>
  The request: a GET of the resource path joined to the path of the sanitized Arr URL,
  with the parameters set in the query, the result of \<^verbatim>\<open>getApikey\<close> in the header
  \<^verbatim>\<open>X-Api-Key\<close> and a signal that aborts after 30000 milliseconds. The request of
  \<^verbatim>\<open>getMediaFromArr\<close> has the path \<^verbatim>\<open>/api/v3/parse\<close> joined on and exactly one
  parameter \<^verbatim>\<open>title\<close>, the title.
\<close>

lemma arrRequest_shape:
  assumes "arrRequest d uArrL resourcePath params = Some req"
  shows "\<exists>u. newURL d (sanitizeUrl d uArrL) = Some u
           \<and> origin (url req) = origin u
           \<and> pathname (url req) = posixJoin d (pathname u) resourcePath
           \<and> searchParams (url req) = fold (\<lambda>(n, v). searchParams_set n v) params (searchParams u)"
    and "requestMethod req = ''GET''"
    and "headers req = [(''X-Api-Key'', getApikey d uArrL)]"
    and "delay (signal req) = 30000"
  using assms
  by (auto simp: arrRequest_def Let_def AbortSignal_timeout_def ms_30_seconds_def split: option.splits)

lemma getMediaFromArr_request:
  assumes "arrRequest d uArrL ''/api/v3/parse'' [(''title'', title)] = Some req"
  shows "\<exists>u. newURL d (sanitizeUrl d uArrL) = Some u
           \<and> pathname (url req) = posixJoin d (pathname u) ''/api/v3/parse''"
    and "filter (\<lambda>p. fst p = ''title'') (searchParams (url req)) = [(''title'', title)]"
  using assms
  by (auto simp: arrRequest_def Let_def searchParams_set_filter split: option.splits)

text \<open>
  What the call returns in each case: a rejection of \<^verbatim>\<open>fetch\<close> is returned as \<open>Err\<close>,
  as \<^verbatim>\<open>connection timeout\<close> where the rejection is named \<^verbatim>\<open>AbortError\<close>; a status
  outside 200..299 or a body that is not JSON is returned as \<open>Err\<close> with a sample of the
  body, where the body can be read; and the call throws exactly where the URL is
  invalid or the body of a response cannot be read. The sample holds the first 1000
  characters of the body at most.
\<close>

lemma makeArrApiCall_rejected:
  assumes "arrRequest d uArrL resourcePath params = Some req" and "fetch net n req = Inl e"
  shows "makeArrApiCall d net n decode uArrL resourcePath params =
           Returns (Err (if errName e = ''AbortError'' then Error ''connection timeout'' else e))"
  using assms by (simp add: makeArrApiCall_unfold)

lemma makeArrApiCall_no_answer:
  assumes "arrRequest d uArrL resourcePath params = Some req" and "net n req = NoAnswerInTime"
  shows "makeArrApiCall d net n decode uArrL resourcePath params =
           Returns (Err (JsError ''TimeoutError'' ''The operation was aborted due to timeout'' None))"
proof -
  have "signal req = AbortSignal_timeout ms_30_seconds"
    using assms(1) by (auto simp: arrRequest_def Let_def split: option.splits)
  then have "fetch net n req = Inl (JsError ''TimeoutError'' ''The operation was aborted due to timeout'' None)"
    using assms(2) by (simp add: fetch_def AbortSignal_timeout_def)
  from makeArrApiCall_rejected [OF assms(1) this] show ?thesis by simp
qed

lemma makeArrApiCall_not_ok:
  assumes "arrRequest d uArrL resourcePath params = Some req" and "fetch net n req = Inr r"
    and "\<not> ok r" and "body r = Inr t"
  shows "makeArrApiCall d net n decode uArrL resourcePath params =
           Returns (Err (Error (show_nat (status r) @ '' '' @ statusText r @ '' '' @ getBodySampleMessage t)))"
  using assms by (simp add: makeArrApiCall_unfold text_of_def)

lemma makeArrApiCall_non_JSON:
  assumes "arrRequest d uArrL resourcePath params = Some req" and "fetch net n req = Inr r"
    and "ok r" and "body r = Inr t" and "decode t = None"
  shows "makeArrApiCall d net n decode uArrL resourcePath params =
           Returns (Err (Error (''Arr response was non-JSON. '' @ getBodySampleMessage t)))"
  using assms by (simp add: makeArrApiCall_unfold text_of_def json_of_def)

lemma makeArrApiCall_JSON:
  assumes "arrRequest d uArrL resourcePath params = Some req" and "fetch net n req = Inr r"
    and "ok r" and "body r = Inr t" and "decode t = Some v"
  shows "makeArrApiCall d net n decode uArrL resourcePath params = Returns (Ok v)"
  using assms by (simp add: makeArrApiCall_unfold text_of_def json_of_def)

lemma makeArrApiCall_body_unreadable:
  assumes "arrRequest d uArrL resourcePath params = Some req" and "fetch net n req = Inr r"
    and "body r = Inl e"
  shows "makeArrApiCall d net n decode uArrL resourcePath params = Throws (Uncaught e)"
  using assms by (simp add: makeArrApiCall_unfold text_of_def json_of_def)

lemma makeArrApiCall_Throws_iff:
  "makeArrApiCall d net n decode uArrL resourcePath params = Throws x \<longleftrightarrow>
     (arrRequest d uArrL resourcePath params = None \<and> x = invalidURL)
     \<or> (\<exists>req r e. arrRequest d uArrL resourcePath params = Some req \<and> fetch net n req = Inr r
           \<and> body r = Inl e \<and> x = Uncaught e)"
  by (auto simp: makeArrApiCall_unfold text_of_def json_of_def split: option.splits sum.splits)

lemma getBodySampleMessage_sample:
  "getBodySampleMessage t = (if t = [] then [] else ''first 1000 characters: '' @ take 1000 t)"
  by (cases t) (simp_all add: getBodySampleMessage_def Let_def)

lemma getBodySampleMessage_length: "length (getBodySampleMessage t) \<le> 23 + 1000"
  by (simp add: getBodySampleMessage_sample)

section \<open>Claims about makeArrApiCall\<close>

text \<open>
  C9 says that \<^verbatim>\<open>makeArrApiCall\<close> returns an \<open>Err\<close> and does not throw for every
  status outside 200..299. It throws for such a response where the body cannot be read
  to its end: \<^verbatim>\<open>await response.text()\<close> stands outside every \<^verbatim>\<open>try\<close>, unlike the
  calls of \<^verbatim>\<open>fetch\<close> and \<^verbatim>\<open>json()\<close> beside it. Here the instance answers 500 and the
  connection is lost while the body arrives.
\<close>

theorem makeArrApiCall_unreadable_body_throws:
  "makeArrApiCall exampleDeps brokenBodyNet 0 (decodeParsedMedia exampleDeps)
     ''http://r?apikey=key'' ''/api/v3/parse'' [(''title'', ''The Film'')] =
   Throws (Uncaught (JsError ''TypeError'' ''terminated'' None))"
  by (simp add: makeArrApiCall_unfold arrRequest_def exampleDeps_def brokenBodyNet_def fetch_def ok_def
      text_of_def)

text \<open>
  C6 says that the call returns \<open>Err\<close> of \<^verbatim>\<open>connection timeout\<close> when the deadline of
  30 seconds elapses. The code gives that message to a rejection named
  \<^verbatim>\<open>AbortError\<close>, but a signal made by \<^verbatim>\<open>AbortSignal.timeout\<close> aborts with a
  \<^verbatim>\<open>TimeoutError\<close>: for an instance that does not answer in time the call returns
  \<open>Err\<close> of that \<^verbatim>\<open>TimeoutError\<close>, not of \<^verbatim>\<open>connection timeout\<close>.
\<close>

theorem makeArrApiCall_deadline_not_connection_timeout:
  "makeArrApiCall exampleDeps silentNet 0 (decodeParsedMedia exampleDeps)
     ''http://r?apikey=key'' ''/api/v3/parse'' [(''title'', ''The Film'')] =
   Returns (Err (JsError ''TimeoutError'' ''The operation was aborted due to timeout'' None))
   \<and> makeArrApiCall exampleDeps silentNet 0 (decodeParsedMedia exampleDeps)
     ''http://r?apikey=key'' ''/api/v3/parse'' [(''title'', ''The Film'')] \<noteq>
   Returns (Err (Error ''connection timeout''))"
  by (simp add: makeArrApiCall_unfold arrRequest_def exampleDeps_def silentNet_def fetch_def
      AbortSignal_timeout_def Error_def)

section \<open>The database module\<close>

text \<open>
  An access to the tables through a handle changes no journal mode, and no database
  other than the one the handle is connected to. Where the module returns, it has done
  the seven steps of its text in their order; it returns where the file can be opened.
\<close>

lemma tableOp_journal_mode:
  "map_option journal_mode (databases (tableOp knex f w) t) = map_option journal_mode (databases w t)"
  by (simp add: tableOp_def split: option.splits)

lemma tableOps_journal_mode:
  "map_option journal_mode (databases (tableOps ops w) t) = map_option journal_mode (databases w t)"
  by (induction ops arbitrary: w) (auto simp: tableOp_journal_mode)

lemma tableOp_other:
  "t \<noteq> connection knex \<Longrightarrow> databases (tableOp knex f w) t = databases w t"
  by (simp add: tableOp_def split: option.splits)

lemma tableOps_other:
  "\<forall>(knex, f) \<in> set ops. connection knex \<noteq> t \<Longrightarrow> databases (tableOps ops w) t = databases w t"
  by (induction ops arbitrary: w) (auto simp: tableOp_other)

lemma moduleInit_Returns:
  assumes "moduleInit join appDir w = Returns (db, memDB, w')"
  defines "filename \<equiv> join appDir ''cross-seed.db''"
  shows "canOpen w filename"
    and "db = \<lparr>client = ''better-sqlite3'', connection = File filename, useNullAsDefault = True\<rparr>"
    and "memDB = \<lparr>client = ''better-sqlite3'', connection = Memory, useNullAsDefault = True\<rparr>"
    and "events w' = events w @
          [SqliteOpen filename, SqlitePragma filename ''journal_mode = WAL'', SqliteClose filename,
           KnexCreate (File filename), KnexCreate Memory,
           SchemaCreateTable Memory ''data'', SchemaCreateTable Memory ''ensemble'']"
    and "databases w' (File filename) =
          Some ((case databases w (File filename) of None \<Rightarrow> newDatabase ''delete'' | Some d \<Rightarrow> d)
                  \<lparr>journal_mode := ''wal''\<rparr>)"
    and "databases w' Memory =
          Some \<lparr>journal_mode = ''memory'',
                tables = [''data'' \<mapsto> \<lparr>columns = [table_string_primary ''path'', table_string ''title''], rows = []\<rparr>,
                          ''ensemble'' \<mapsto> \<lparr>columns = [table_string_primary ''path'', table_string ''ensemble'',
                                                       table_string ''element''], rows = []\<rparr>]\<rparr>"
    and "\<forall>f. f \<noteq> filename \<longrightarrow> databases w' (File f) = databases w (File f)"
  using assms
  by (auto simp: moduleInit_def Let_def Sqlite_open_def Sqlite_pragma_def Sqlite_close_def Knex_knex_def
      createTable_def newDatabase_def split: if_splits)

lemma moduleInit_total:
  "canOpen w (join appDir ''cross-seed.db'') \<Longrightarrow> \<exists>db memDB w'. moduleInit join appDir w = Returns (db, memDB, w')"
  by (simp add: moduleInit_def Let_def Sqlite_open_def Sqlite_pragma_def Sqlite_close_def Knex_knex_def
      createTable_def newDatabase_def)

section \<open>Claims about the database module\<close>

text \<open>
  C7. Where the file \<^verbatim>\<open>cross-seed.db\<close> under the application directory can be
  opened, the module returns, and then: the handle \<^verbatim>\<open>db\<close> is connected to that one
  file; the pragma \<^verbatim>\<open>journal_mode = WAL\<close> was applied to the file before either Knex
  handle was created; the journal mode of the file is WAL; and it remains WAL after
  any sequence of accesses to tables through Knex handles.
\<close>

theorem moduleInit_journal_mode_WAL:
  "canOpen w (join appDir ''cross-seed.db'') \<Longrightarrow>
   \<exists>db memDB w'.
     moduleInit join appDir w = Returns (db, memDB, w')
     \<and> connection db = File (join appDir ''cross-seed.db'')
     \<and> events w' = events w @
          [SqliteOpen (join appDir ''cross-seed.db''),
           SqlitePragma (join appDir ''cross-seed.db'') ''journal_mode = WAL'',
           SqliteClose (join appDir ''cross-seed.db''),
           KnexCreate (File (join appDir ''cross-seed.db'')),
           KnexCreate Memory,
           SchemaCreateTable Memory ''data'',
           SchemaCreateTable Memory ''ensemble'']
     \<and> map_option journal_mode (databases w' (File (join appDir ''cross-seed.db''))) = Some ''wal''
     \<and> (\<forall>ops. map_option journal_mode
                  (databases (tableOps ops w') (File (join appDir ''cross-seed.db''))) = Some ''wal'')"
proof -
  assume "canOpen w (join appDir ''cross-seed.db'')"
  then obtain db memDB w' where r: "moduleInit join appDir w = Returns (db, memDB, w')"
    using moduleInit_total by blast
  note facts = moduleInit_Returns [OF r]
  have jm: "map_option journal_mode (databases w' (File (join appDir ''cross-seed.db''))) = Some ''wal''"
    by (simp add: facts(5))
  have "\<forall>ops. map_option journal_mode
                  (databases (tableOps ops w') (File (join appDir ''cross-seed.db''))) = Some ''wal''"
    by (simp add: tableOps_journal_mode jm)
  with r facts(2,4) jm show ?thesis by simp
qed

theorem moduleInit_journal_mode_WAL_witness:
  "canOpen emptyWorld (exampleJoin ''/config'' ''cross-seed.db'')
   \<and> (\<exists>db memDB w'.
        moduleInit exampleJoin ''/config'' emptyWorld = Returns (db, memDB, w')
        \<and> connection db = File ''/config/cross-seed.db''
        \<and> events w' =
             [SqliteOpen ''/config/cross-seed.db'',
              SqlitePragma ''/config/cross-seed.db'' ''journal_mode = WAL'',
              SqliteClose ''/config/cross-seed.db'',
              KnexCreate (File ''/config/cross-seed.db''),
              KnexCreate Memory,
              SchemaCreateTable Memory ''data'',
              SchemaCreateTable Memory ''ensemble'']
        \<and> map_option journal_mode (databases w' (File ''/config/cross-seed.db'')) = Some ''wal'')"
proof -
  have c: "canOpen emptyWorld (exampleJoin ''/config'' ''cross-seed.db'')"
    by (simp add: emptyWorld_def)
  have j: "exampleJoin ''/config'' ''cross-seed.db'' = ''/config/cross-seed.db''"
    by (simp add: exampleJoin_def)
  have e: "events emptyWorld = []" by (simp add: emptyWorld_def)
  from moduleInit_journal_mode_WAL [where w = emptyWorld and join = exampleJoin and appDir = "''/config''", OF c] obtain db memDB w' where
    r: "moduleInit exampleJoin ''/config'' emptyWorld = Returns (db, memDB, w')"
    and d: "connection db = File (exampleJoin ''/config'' ''cross-seed.db'')"
    and ev: "events w' = events emptyWorld @
          [SqliteOpen (exampleJoin ''/config'' ''cross-seed.db''),
           SqlitePragma (exampleJoin ''/config'' ''cross-seed.db'') ''journal_mode = WAL'',
           SqliteClose (exampleJoin ''/config'' ''cross-seed.db''),
           KnexCreate (File (exampleJoin ''/config'' ''cross-seed.db'')),
           KnexCreate Memory,
           SchemaCreateTable Memory ''data'',
           SchemaCreateTable Memory ''ensemble'']"
    and jm: "map_option journal_mode (databases w' (File (exampleJoin ''/config'' ''cross-seed.db''))) = Some ''wal''"
    by (elim exE conjE)
  from d have d': "connection db = File ''/config/cross-seed.db''" by (simp only: j)
  from ev have ev': "events w' =
             [SqliteOpen ''/config/cross-seed.db'',
              SqlitePragma ''/config/cross-seed.db'' ''journal_mode = WAL'',
              SqliteClose ''/config/cross-seed.db'',
              KnexCreate (File ''/config/cross-seed.db''),
              KnexCreate Memory,
              SchemaCreateTable Memory ''data'',
              SchemaCreateTable Memory ''ensemble'']"
    by (simp only: j e append_Nil)
  from jm have jm': "map_option journal_mode (databases w' (File ''/config/cross-seed.db'')) = Some ''wal''"
    by (simp only: j)
  from c r d' ev' jm' show ?thesis by (intro conjI exI)
qed

text \<open>
  C8. Where the module returns, \<^verbatim>\<open>memDB\<close> is connected to \<^verbatim>\<open>":memory:"\<close> and
  \<^verbatim>\<open>db\<close> to the file; the tables of the in-memory database are \<^verbatim>\<open>data\<close> and
  \<^verbatim>\<open>ensemble\<close>; the tables of the file are those it had before (none for a new file);
  an access to tables through \<^verbatim>\<open>memDB\<close> changes no database other than the one in
  memory, and after any sequence of such accesses the database of the file is
  unchanged.
\<close>

theorem memDB_tables_in_memory_only:
  "canOpen w (join appDir ''cross-seed.db'') \<Longrightarrow>
   \<exists>db memDB w'.
     moduleInit join appDir w = Returns (db, memDB, w')
     \<and> connection memDB = Memory
     \<and> connection db = File (join appDir ''cross-seed.db'')
     \<and> map_option (\<lambda>d. dom (tables d)) (databases w' Memory) = Some {''data'', ''ensemble''}
     \<and> map_option tables (databases w' (File (join appDir ''cross-seed.db''))) =
         Some (case databases w (File (join appDir ''cross-seed.db'')) of
                 None \<Rightarrow> Map.empty
               | Some d \<Rightarrow> tables d)
     \<and> (\<forall>g t. t \<noteq> Memory \<longrightarrow> databases (tableOp memDB g w') t = databases w' t)
     \<and> (\<forall>ops. (\<forall>(knex, g) \<in> set ops. knex = memDB) \<longrightarrow>
           databases (tableOps ops w') (File (join appDir ''cross-seed.db'')) =
           databases w' (File (join appDir ''cross-seed.db'')))"
proof -
  assume "canOpen w (join appDir ''cross-seed.db'')"
  then obtain db memDB w' where r: "moduleInit join appDir w = Returns (db, memDB, w')"
    using moduleInit_total by blast
  note facts = moduleInit_Returns [OF r]
  have m: "connection memDB = Memory" and f: "connection db = File (join appDir ''cross-seed.db'')"
    by (simp_all add: facts(2,3))
  have t1: "map_option (\<lambda>d. dom (tables d)) (databases w' Memory) = Some {''data'', ''ensemble''}"
    by (simp add: facts(6) insert_commute)
  have t2: "map_option tables (databases w' (File (join appDir ''cross-seed.db''))) =
         Some (case databases w (File (join appDir ''cross-seed.db'')) of
                 None \<Rightarrow> Map.empty
               | Some d \<Rightarrow> tables d)"
    by (simp add: facts(5) newDatabase_def split: option.splits)
  have o1: "\<forall>g t. t \<noteq> Memory \<longrightarrow> databases (tableOp memDB g w') t = databases w' t"
    using m by (simp add: tableOp_other)
  have o2: "\<forall>ops. (\<forall>(knex, g) \<in> set ops. knex = memDB) \<longrightarrow>
           databases (tableOps ops w') (File (join appDir ''cross-seed.db'')) =
           databases w' (File (join appDir ''cross-seed.db''))"
  proof (intro allI impI)
    fix ops :: "(Knex \<times> ((string \<rightharpoonup> Table) \<Rightarrow> (string \<rightharpoonup> Table))) list"
    assume "\<forall>(knex, g) \<in> set ops. knex = memDB"
    then have "\<forall>(knex, g) \<in> set ops. connection knex \<noteq> File (join appDir ''cross-seed.db'')"
      using m by auto
    then show "databases (tableOps ops w') (File (join appDir ''cross-seed.db'')) =
           databases w' (File (join appDir ''cross-seed.db''))"
      by (rule tableOps_other)
  qed
  from r m f t1 t2 o1 o2 show ?thesis by (intro exI conjI)
qed

theorem memDB_tables_in_memory_only_witness:
  "canOpen emptyWorld (exampleJoin ''/config'' ''cross-seed.db'')
   \<and> (\<exists>db memDB w'.
        moduleInit exampleJoin ''/config'' emptyWorld = Returns (db, memDB, w')
        \<and> connection memDB = Memory
        \<and> map_option (\<lambda>d. dom (tables d)) (databases w' Memory) = Some {''data'', ''ensemble''}
        \<and> map_option tables (databases w' (File ''/config/cross-seed.db'')) = Some Map.empty
        \<and> databases (tableOp memDB (\<lambda>ts. ts(''data'' := None)) w') (File ''/config/cross-seed.db'') =
            databases w' (File ''/config/cross-seed.db''))"
proof -
  have c: "canOpen emptyWorld (exampleJoin ''/config'' ''cross-seed.db'')"
    by (simp add: emptyWorld_def)
  have j: "exampleJoin ''/config'' ''cross-seed.db'' = ''/config/cross-seed.db''"
    by (simp add: exampleJoin_def)
  have e: "databases emptyWorld (File ''/config/cross-seed.db'') = None" by (simp add: emptyWorld_def)
  from memDB_tables_in_memory_only [where w = emptyWorld and join = exampleJoin and appDir = "''/config''", OF c]
  obtain db memDB w' where
    r: "moduleInit exampleJoin ''/config'' emptyWorld = Returns (db, memDB, w')"
    and m: "connection memDB = Memory"
    and t1: "map_option (\<lambda>d. dom (tables d)) (databases w' Memory) = Some {''data'', ''ensemble''}"
    and t2a: "map_option tables (databases w' (File (exampleJoin ''/config'' ''cross-seed.db''))) =
         Some (case databases emptyWorld (File (exampleJoin ''/config'' ''cross-seed.db'')) of
                 None \<Rightarrow> Map.empty
               | Some d \<Rightarrow> tables d)"
    and o1: "\<forall>g t. t \<noteq> Memory \<longrightarrow> databases (tableOp memDB g w') t = databases w' t"
    by (elim exE conjE)
  from t2a have t2: "map_option tables (databases w' (File ''/config/cross-seed.db'')) = Some Map.empty"
    unfolding j by (simp add: e)
  from o1 have "databases (tableOp memDB (\<lambda>ts. ts(''data'' := None)) w') (File ''/config/cross-seed.db'') =
            databases w' (File ''/config/cross-seed.db'')" by simp
  with c r m t1 t2 show ?thesis by (intro exI conjI)
qed

end
